theory Spec2Isabelle
  imports Main
begin

section \<open>JavaScript strings, arrays and maps\<close>

text \<open>
  Strings are \<^typ>\<open>string\<close>. The helpers below are the \<open>String.prototype\<close> methods the
  sources call, restricted to the arguments they are called with.
\<close>

definition startsWith :: "string \<Rightarrow> string \<Rightarrow> bool" where
  "startsWith s p = (take (length p) s = p)"

definition endsWith :: "string \<Rightarrow> string \<Rightarrow> bool" where
  "endsWith s p = (length p \<le> length s \<and> drop (length s - length p) s = p)"

text \<open>\<open>s.split(c)\<close> for a one-character separator: the empty string splits into one
  empty piece, and a trailing separator leaves an empty last piece.\<close>

fun split_chr :: "char \<Rightarrow> string \<Rightarrow> string list" where
  "split_chr c [] = [[]]"
| "split_chr c (x # xs) =
     (if x = c then [] # split_chr c xs
      else (case split_chr c xs of
              [] \<Rightarrow> [[x]]
            | p # ps \<Rightarrow> (x # p) # ps))"

text \<open>\<open>s.split(c, n)\<close>: the pieces of \<open>s.split(c)\<close>, cut after the first \<open>n\<close> of them.\<close>

definition split_limit :: "char \<Rightarrow> nat \<Rightarrow> string \<Rightarrow> string list" where
  "split_limit c n s = take n (split_chr c s)"

text \<open>\<open>s.slice(1, -1)\<close>: the string without its first and its last character.\<close>

definition slice_1_m1 :: "string \<Rightarrow> string" where
  "slice_1_m1 s = butlast (tl s)"

text \<open>The decimal numeral of an array index, as \<open>String(i)\<close> gives it.\<close>

definition digit_chr :: "nat \<Rightarrow> char" where
  "digit_chr d = ''0123456789'' ! d"

fun string_of_nat :: "nat \<Rightarrow> string" where
  "string_of_nat n =
     (if n < 10 then [digit_chr n] else string_of_nat (n div 10) @ [digit_chr (n mod 10)])"

declare string_of_nat.simps [simp del]

text \<open>
  \<open>for (const k in xs)\<close> over an array enumerates its property keys, which are the
  indices \<open>"0"\<close>, \<open>"1"\<close>, ... as strings (\<open>for ... of\<close> would enumerate the elements).
\<close>

definition array_keys :: "'a list \<Rightarrow> string list" where
  "array_keys xs = map string_of_nat [0..<length xs]"

text \<open>
  A JavaScript \<open>Map\<close> keeps its entries in insertion order; \<open>set\<close> on a key that is
  present replaces the value in place, on a new key it appends. An association list
  with that update is the model; \<open>get\<close> is \<^const>\<open>map_of\<close> and \<open>values()\<close> is
  \<^term>\<open>map snd\<close>.
\<close>

fun Map_set :: "'k \<Rightarrow> 'v \<Rightarrow> ('k \<times> 'v) list \<Rightarrow> ('k \<times> 'v) list" where
  "Map_set k v [] = [(k, v)]"
| "Map_set k v (e # m) = (if fst e = k then (k, v) # m else e # Map_set k v m)"

definition Map_get :: "('k \<times> 'v) list \<Rightarrow> 'k \<Rightarrow> 'v option" where
  "Map_get m k = map_of m k"

definition Map_values :: "('k \<times> 'v) list \<Rightarrow> 'v list" where
  "Map_values m = map snd m"

section \<open>Ini.ts: the metadata reader\<close>

text \<open>
  A stored value is \<open>Some v\<close> for a string and \<open>None\<close> for \<open>undefined\<close>, which is what
  the destructuring \<open>const [key, value] = line.split("=", 2)\<close> gives \<open>value\<close> when the
  line has no \<open>=\<close>.
\<close>

type_synonym ini_map = "(string \<times> string option) list"

record IniData =
  global :: ini_map
  sections :: "(string \<times> ini_map) list"

text \<open>
  \<open>currentSection\<close> is a reference to one of the maps of the document: the global
  map, or the map most recently stored under a section name. The maps stored in
  \<open>sections\<close> are reachable through \<open>currentSection\<close> and through \<open>sections\<close> only, and
  a header line replaces both at once, so naming the referenced map is enough.
\<close>

datatype section_ref = GlobalRef | SectionRef string

type_synonym ini_state = "IniData \<times> section_ref"

definition section_set :: "section_ref \<Rightarrow> string \<Rightarrow> string option \<Rightarrow> IniData \<Rightarrow> IniData" where
  "section_set r key val ini =
     (case r of
        GlobalRef \<Rightarrow> ini\<lparr>global := Map_set key val (global ini)\<rparr>
      | SectionRef name \<Rightarrow>
          ini\<lparr>sections :=
                map (\<lambda>(n, m). if n = name then (n, Map_set key val m) else (n, m)) (sections ini)\<rparr>)"

text \<open>The body of the loop of \<open>parseIni\<close>, for one value of the loop variable \<open>line\<close>.\<close>

definition parseIni_line :: "string \<Rightarrow> ini_state \<Rightarrow> ini_state" where
  "parseIni_line line st =
     (let (ini, currentSection) = st in
      if line = [] \<or> startsWith line '';'' then st
      else if startsWith line ''['' \<and> endsWith line '']'' then
        (ini\<lparr>sections := Map_set (slice_1_m1 line) [] (sections ini)\<rparr>,
         SectionRef (slice_1_m1 line))
      else
        (let parts = split_limit (CHR ''='') 2 line;
             key = hd parts;
             val = (if length parts < 2 then None else Some (parts ! 1))
         in (section_set currentSection key val ini, currentSection)))"

definition newline :: char where
  "newline = CHR 0x0A"

text \<open>
  \<open>parseIni\<close>: the loop is \<open>for (const line in lines)\<close>, so \<open>line\<close> ranges over the
  keys of the array \<open>lines\<close>, not over its elements.
\<close>

definition parseIni :: "string \<Rightarrow> IniData" where
  "parseIni data =
     (let lines = split_chr newline data
      in fst (fold parseIni_line (array_keys lines)
                (\<lparr>global = [], sections = []\<rparr>, GlobalRef)))"

section \<open>Errors, effects and the host\<close>

text \<open>
  A thrown value is an error object: its \<open>name\<close> (\<open>Error\<close> for \<open>new Error(...)\<close>,
  \<open>TypeError\<close> for the type errors of the runtime), its \<open>message\<close> and, for the errors
  of the file system and of argument validation, its \<open>path\<close> and \<open>code\<close> properties; a
  property that is absent reads as \<open>undefined\<close> (\<open>None\<close>).
\<close>

record js_error =
  err_name :: string
  message :: string
  err_path :: "string option"
  err_code :: "string option"

definition new_Error :: "string \<Rightarrow> js_error" where
  "new_Error msg = \<lparr>err_name = ''Error'', message = msg, err_path = None, err_code = None\<rparr>"

text \<open>A value inside a template literal: \<open>undefined\<close> prints as the word.\<close>

definition template :: "string option \<Rightarrow> string" where
  "template v = (case v of None \<Rightarrow> ''undefined'' | Some s \<Rightarrow> s)"

text \<open>
  What a call does to the outside world is kept as the list of its accesses, in the
  order they are started: an existence probe, the read of a file, the launch of the
  package query.
\<close>

datatype effect = ExistsSync string | ReadFile string | ExecFile string

type_synonym 'a io = "effect list \<times> (js_error + 'a)"

definition io_pure :: "js_error + 'a \<Rightarrow> 'a io" where
  "io_pure r = ([], r)"

definition io_bind :: "'a io \<Rightarrow> ('a \<Rightarrow> 'b io) \<Rightarrow> 'b io" where
  "io_bind m f =
     (case snd m of
        Inl e \<Rightarrow> (fst m, Inl e)
      | Inr x \<Rightarrow> (fst m @ fst (f x), snd (f x)))"

text \<open>The callback arguments of \<open>execFile\<close>: \<open>error\<close> (\<open>None\<close> for \<open>null\<close>), \<open>stdout\<close>, \<open>stderr\<close>.\<close>

record exec_result =
  exec_error :: "js_error option"
  stdout :: string
  stderr :: string

text \<open>
  \<open>JSON.parse(stdout) as AppxPackage\<close> is a cast that checks nothing: the adapter
  resolves with whatever value the text denotes. A value is \<open>null\<close>, a boolean, a number
  (kept as its numeral), a string, an array or an object (its own properties, each key
  once).
\<close>

datatype json =
    JNull
  | JBoolean bool
  | JNumber string
  | JString string
  | JArray "json list"
  | JObject "(string \<times> json) list"

text \<open>
  \<open>packageData.InstallLocation\<close> on a value that is not \<open>null\<close>: the property of an
  object, and \<open>undefined\<close> (\<open>None\<close>) on an object without it and on an array, a string,
  a number or a boolean, none of whose prototypes has such a property.
\<close>

fun InstallLocation :: "json \<Rightarrow> json option" where
  "InstallLocation (JObject properties) = map_of properties ''InstallLocation''"
| "InstallLocation packageData = None"

text \<open>
  The two type errors the runtime can throw in \<open>getAssetsLocations_Windows\<close>: reading a
  property of \<open>null\<close>, and \<open>path.join\<close> rejecting an argument that is not a string
  (the rejected value is kept, \<open>None\<close> for \<open>undefined\<close>). Their message texts belong to
  the runtime.
\<close>

datatype runtime_fault = PropertyOfNull string | InvalidPathArgument "json option"

text \<open>
  The host: everything the two modules read from Node and the operating system.
  \<^item> \<open>platform\<close> is \<open>os.platform()\<close>, \<open>homedir\<close> is \<open>os.homedir()\<close>, \<open>LOCALAPPDATA\<close> is
    \<open>process.env["LOCALAPPDATA"]\<close> (\<open>None\<close> when the variable is not set);
  \<^item> \<open>path_join\<close> is \<open>path.join\<close> of the platform, applied to the list of its arguments;
  \<^item> \<open>existsSync\<close> is \<open>fs.existsSync\<close> and \<open>readFile\<close> is \<open>fs/promises.readFile\<close> with
    \<open>utf8\<close> encoding; the file system does not change during one call;
  \<^item> \<open>powershell\<close> is the outcome of the \<open>powershell.exe\<close> invocation of
    \<open>GetAppxPackage\<close> for a package name, its 500 ms timeout included (a timeout is an
    \<open>error\<close>);
  \<^item> \<open>JSON_parse\<close> is \<open>JSON.parse\<close>: the value a text denotes, or the error thrown for a
    text that is not JSON;
  \<^item> \<open>parseInt\<close> is \<open>Number.parseInt\<close> with one argument. Its result is a Number:
    \<open>None\<close> is \<open>NaN\<close>, and the other Numbers (finite or infinite, the two zeros taken
    as one) are the linearly ordered type \<open>'n\<close>, so that nothing is assumed about how
    a numeral is rounded;
  \<^item> \<open>TypeError_message\<close> is the message the runtime gives a type error.
\<close>

record 'n host =
  platform :: string
  homedir :: string
  LOCALAPPDATA :: "string option"
  path_join :: "string list \<Rightarrow> string"
  existsSync :: "string \<Rightarrow> bool"
  readFile :: "string \<Rightarrow> js_error + string"
  powershell :: "string \<Rightarrow> exec_result"
  JSON_parse :: "string \<Rightarrow> js_error + json"
  parseInt :: "string \<Rightarrow> 'n option"
  TypeError_message :: "runtime_fault \<Rightarrow> string"

definition TypeError :: "'n host \<Rightarrow> runtime_fault \<Rightarrow> js_error" where
  "TypeError h fault =
     \<lparr>err_name = ''TypeError'', message = TypeError_message h fault, err_path = None,
      err_code =
        (case fault of
           PropertyOfNull property_name \<Rightarrow> None
         | InvalidPathArgument v \<Rightarrow> Some ''ERR_INVALID_ARG_TYPE'')\<rparr>"

section \<open>The messages of the errors\<close>

text \<open>The string and template literals of the \<open>throw\<close> statements, each as a function
  of the values it interpolates.\<close>

definition not_installed_message :: string where
  "not_installed_message =
     ''Could not determine the location of Bedrock's data files. The game is not installed or is installed in an unsupported location.''"

definition env_missing_message :: string where
  "env_missing_message =
     ''Could not determine the location of Bedrock's data files. The LOCALAPPDATA environment variable is missing.''"

definition data_unsupported_message :: "string \<Rightarrow> string" where
  "data_unsupported_message platform_name =
     ''Could not determine the location of Bedrock's data files. The current platform ('' @ platform_name @ '') is not supported. Supported platforms: win32 (Windows), darwin (MacOS), linux, android''"

definition assets_unsupported_message :: "string \<Rightarrow> string" where
  "assets_unsupported_message platform_name =
     ''Could not determine the location of Bedrock's asset files. The current platform ('' @ platform_name @ '') is not supported. Supported platforms: win32 (Windows), darwin (MacOS), linux''"

definition package_error_message :: "string \<Rightarrow> string" where
  "package_error_message e_message =
     ''Could not determine the location of Bedrock's asset files. The package details command returned the following error:'' @ [newline] @ e_message"

definition ini_read_error_message :: "string option \<Rightarrow> string option \<Rightarrow> string" where
  "ini_read_error_message error_path error_code =
     ''Could not determine the location of Bedrock's asset files. There was an error reading the mcpe-launcher versions.ini file.'' @ [newline] @ ''Path: '' @ template error_path @ [newline] @ ''Code: '' @ template error_code"

definition no_valid_version_message :: "string \<Rightarrow> string" where
  "no_valid_version_message versionsIniPath =
     ''Could not determine the location of Bedrock's asset files. The mcpe-launcher versions file did not contain a valid version (or the format has been changed).'' @ [newline] @ ''Path: '' @ versionsIniPath"

section \<open>Appx.ts: the package query adapter\<close>

definition GetAppxPackage :: "'n host \<Rightarrow> string \<Rightarrow> json io" where
  "GetAppxPackage h name =
     ([ExecFile name],
      (let out = powershell h name in
       case exec_error out of
         Some error \<Rightarrow> Inl error
       | None \<Rightarrow>
           if stderr out \<noteq> [] then Inl (new_Error (stderr out))
           else (case JSON_parse h (stdout out) of
                   Inl e \<Rightarrow> Inl e
                 | Inr packageData \<Rightarrow> Inr packageData)))"

section \<open>Ini.ts: reading a file\<close>

definition readIni :: "'n host \<Rightarrow> string \<Rightarrow> IniData io" where
  "readIni h p =
     ([ReadFile p],
      (case readFile h p of
         Inl e \<Rightarrow> Inl e
       | Inr data \<Rightarrow> Inr (parseIni data)))"

section \<open>Locations.ts: the existence filter and the data resolver\<close>

definition checkExists :: "'n host \<Rightarrow> string list \<Rightarrow> string list io" where
  "checkExists h paths =
     (map ExistsSync paths,
      (let existingPaths = filter (existsSync h) paths in
       if length existingPaths = 0 then
         Inl (new_Error not_installed_message)
       else Inr existingPaths))"

text \<open>\<open>if (process.env["LOCALAPPDATA"])\<close> tests truthiness: a variable that is not set
  and a variable set to the empty string both take the \<open>else\<close> branch.\<close>

definition getDataLocations_Windows :: "'n host \<Rightarrow> js_error + string list" where
  "getDataLocations_Windows h =
     (case LOCALAPPDATA h of
        Some v \<Rightarrow>
          if v \<noteq> [] then
            Inr [path_join h [v, ''Packages/Microsoft.MinecraftUWP_8wekyb3d8bbwe/LocalState/games/com.mojang'']]
          else
            Inl (new_Error env_missing_message)
      | None \<Rightarrow>
          Inl (new_Error env_missing_message))"

definition getDataLocations_MacOS :: "'n host \<Rightarrow> string list" where
  "getDataLocations_MacOS h =
     [path_join h [homedir h, ''Library/Application Support/mcpelauncher/games/com.mojang'']]"

definition getDataLocations_Linux :: "'n host \<Rightarrow> string list" where
  "getDataLocations_Linux h =
     [path_join h [homedir h, ''.local/share/mcpelauncher/games/com.mojang''],
      path_join h [homedir h, ''.var/app/io.mrarm.mcpelauncher/data/mcpelauncher/games/com.mojang'']]"

definition getDataLocations_Android :: "string list" where
  "getDataLocations_Android =
     [''/data/data/com.mojang.minecraftpe/games/com.mojang'',
      ''/sdcard/games/com.mojang'']"

definition getDataLocations :: "'n host \<Rightarrow> string list io" where
  "getDataLocations h =
     (if platform h = ''win32'' then io_bind (io_pure (getDataLocations_Windows h)) (checkExists h)
      else if platform h = ''darwin'' then checkExists h (getDataLocations_MacOS h)
      else if platform h = ''linux'' then checkExists h (getDataLocations_Linux h)
      else if platform h = ''android'' then checkExists h getDataLocations_Android
      else
        io_pure (Inl (new_Error (data_unsupported_message (platform h)))))"

section \<open>Locations.ts: the version selector\<close>

text \<open>\<open>versionCode\<close> is a Number: \<open>None\<close> for \<open>NaN\<close>.\<close>

record 'n MCPEVersion =
  versionCode :: "'n option"
  versionName :: string

text \<open>
  \<open>section.get("versionCode") as string\<close> is \<open>undefined\<close> when the key is missing or
  was stored without a value, and \<open>parseInt\<close> then converts the word \<open>undefined\<close>;
  \<open>section.get("versionName") || ""\<close> replaces \<open>undefined\<close> and the empty string by
  the empty string.
\<close>

definition parseVersionSection :: "'n host \<Rightarrow> ini_map \<Rightarrow> 'n MCPEVersion" where
  "parseVersionSection h section =
     \<lparr>versionCode =
        parseInt h (case Map_get section ''versionCode'' of
                    Some (Some s) \<Rightarrow> s
                  | _ \<Rightarrow> ''undefined''),
      versionName =
        (case Map_get section ''versionName'' of
           Some (Some s) \<Rightarrow> s
         | _ \<Rightarrow> [])\<rparr>"

text \<open>Lines 213 to 215: the records of the named sections that pass the filter.\<close>

definition validVersion :: "'n MCPEVersion \<Rightarrow> bool" where
  "validVersion v = (versionCode v \<noteq> None \<and> versionName v \<noteq> [])"

definition sectionRecords :: "'n host \<Rightarrow> IniData \<Rightarrow> 'n MCPEVersion list" where
  "sectionRecords h iniData = map (parseVersionSection h) (Map_values (sections iniData))"

definition parsedVersions :: "'n host \<Rightarrow> IniData \<Rightarrow> 'n MCPEVersion list" where
  "parsedVersions h iniData = filter validVersion (sectionRecords h iniData)"

text \<open>
  Lines 218 to 221: \<open>maxVersion\<close> starts as \<open>versions[0]\<close>, which is \<open>undefined\<close> for an
  empty array (the loop then has no iteration), and is replaced by each later record
  whose code is strictly greater; \<open>>\<close> is false as soon as one side is \<open>NaN\<close>.
\<close>

definition number_gt :: "('n::linorder) option \<Rightarrow> 'n option \<Rightarrow> bool" where
  "number_gt a b =
     (case a of
        None \<Rightarrow> False
      | Some x \<Rightarrow> (case b of None \<Rightarrow> False | Some y \<Rightarrow> x > y))"

definition laterVersion :: "('n::linorder) MCPEVersion \<Rightarrow> 'n MCPEVersion \<Rightarrow> 'n MCPEVersion" where
  "laterVersion version maxVersion =
     (if number_gt (versionCode version) (versionCode maxVersion) then version else maxVersion)"

definition findMaxVersion :: "('n::linorder) MCPEVersion list \<Rightarrow> 'n MCPEVersion option" where
  "findMaxVersion versions =
     (case versions of
        [] \<Rightarrow> None
      | v # _ \<Rightarrow> Some (fold laterVersion versions v))"

text \<open>Lines 213 to 228: what the selector does with the document it has read.\<close>

definition selectAssets :: "('n::linorder) host \<Rightarrow> string \<Rightarrow> string \<Rightarrow> IniData \<Rightarrow> js_error + string" where
  "selectAssets h rootInstallPath versionsIniPath iniData =
     (case findMaxVersion (parsedVersions h iniData) of
        None \<Rightarrow>
          Inl (new_Error (no_valid_version_message versionsIniPath))
      | Some maxVersion \<Rightarrow>
          Inr (path_join h [rootInstallPath, ''versions'', versionName maxVersion, ''assets'']))"

definition getAssetsLocation_mcpelauncher :: "('n::linorder) host \<Rightarrow> string \<Rightarrow> string io" where
  "getAssetsLocation_mcpelauncher h rootInstallPath =
     (let versionsIniPath = path_join h [rootInstallPath, ''versions/versions.ini''];
          r = readIni h versionsIniPath
      in (fst r,
          (case snd r of
             Inl error \<Rightarrow>
               Inl (new_Error (ini_read_error_message (err_path error) (err_code error)))
           | Inr iniData \<Rightarrow> selectAssets h rootInstallPath versionsIniPath iniData)))"

section \<open>Locations.ts: the asset resolver\<close>

text \<open>
  Lines 135 to 137 are outside the \<open>try\<close>: on \<open>null\<close> the property read throws, and
  \<open>path.join\<close> throws on a first argument that is not a string; neither error is
  caught.
\<close>

definition getAssetsLocations_Windows :: "'n host \<Rightarrow> string list io" where
  "getAssetsLocations_Windows h =
     (let r = GetAppxPackage h ''Microsoft.MinecraftUWP''
      in (fst r,
          (case snd r of
             Inl e \<Rightarrow>
               Inl (new_Error (package_error_message (message e)))
           | Inr packageData \<Rightarrow>
               if packageData = JNull then
                 Inl (TypeError h (PropertyOfNull ''InstallLocation''))
               else
                 (case InstallLocation packageData of
                    Some (JString location) \<Rightarrow> Inr [path_join h [location, ''data'']]
                  | v \<Rightarrow> Inl (TypeError h (InvalidPathArgument v))))))"

text \<open>
  \<open>Promise.all\<close> over the promises of a list: it fulfils with the values in the order
  of the list once all have fulfilled, and rejects as soon as one rejects. Which
  rejection it reports when several promises reject depends on which settles first;
  the model reports the first in list order, and the theorems below use only that the
  result is a rejection.
\<close>

fun promise_all :: "(js_error + 'a) list \<Rightarrow> js_error + 'a list" where
  "promise_all [] = Inr []"
| "promise_all (r # rs) =
     (case r of
        Inl e \<Rightarrow> Inl e
      | Inr x \<Rightarrow> (case promise_all rs of Inl e \<Rightarrow> Inl e | Inr xs \<Rightarrow> Inr (x # xs)))"

text \<open>
  Lines 151 to 152 and 168 to 169: the roots are probed, and the selector is called on
  every root that exists before any of the calls is awaited, so every read is started.
\<close>

definition mcpelauncherAssets :: "('n::linorder) host \<Rightarrow> string list \<Rightarrow> string list io" where
  "mcpelauncherAssets h mcpeLauncherPaths =
     (let existingPaths = filter (existsSync h) mcpeLauncherPaths;
          calls = map (getAssetsLocation_mcpelauncher h) existingPaths
      in (map ExistsSync mcpeLauncherPaths @ concat (map fst calls),
          promise_all (map snd calls)))"

text \<open>The constant \<open>mcpeLauncherPaths\<close> of each of the two functions.\<close>

definition mcpeLauncherPaths_MacOS :: "'n host \<Rightarrow> string list" where
  "mcpeLauncherPaths_MacOS h =
     [path_join h [homedir h, ''Library/Application Support/mcpelauncher/'']]"

definition mcpeLauncherPaths_Linux :: "'n host \<Rightarrow> string list" where
  "mcpeLauncherPaths_Linux h =
     [path_join h [homedir h, ''.local/share/mcpelauncher''],
      path_join h [homedir h, ''.var/app/io.mrarm.mcpelauncher/data/mcpelauncher'']]"

definition getAssetsLocations_MacOS :: "('n::linorder) host \<Rightarrow> string list io" where
  "getAssetsLocations_MacOS h = mcpelauncherAssets h (mcpeLauncherPaths_MacOS h)"

definition getAssetsLocations_Linux :: "('n::linorder) host \<Rightarrow> string list io" where
  "getAssetsLocations_Linux h = mcpelauncherAssets h (mcpeLauncherPaths_Linux h)"

definition getAssetsLocations :: "('n::linorder) host \<Rightarrow> string list io" where
  "getAssetsLocations h =
     (if platform h = ''win32'' then io_bind (getAssetsLocations_Windows h) (checkExists h)
      else if platform h = ''darwin'' then io_bind (getAssetsLocations_MacOS h) (checkExists h)
      else if platform h = ''linux'' then io_bind (getAssetsLocations_Linux h) (checkExists h)
      else
        io_pure (Inl (new_Error (assets_unsupported_message (platform h)))))"

section \<open>Sample documents and hosts\<close>

text \<open>
  Concrete inputs on which the theorems below are evaluated. \<open>join_slash\<close> stands for
  \<open>path.join\<close> on segments that need no normalisation; \<open>exists_only\<close> is a file system
  in which exactly the listed paths exist, \<open>file_table\<close> one in which exactly the listed
  files can be read (any other read fails with \<open>ENOENT\<close>).
\<close>

fun join_slash :: "string list \<Rightarrow> string" where
  "join_slash [] = ''.''"
| "join_slash [x] = x"
| "join_slash (x # y # ys) = x @ ''/'' @ join_slash (y # ys)"

definition exists_only :: "string list \<Rightarrow> string \<Rightarrow> bool" where
  "exists_only ps p = (p \<in> set ps)"

definition enoent :: "string \<Rightarrow> js_error" where
  "enoent p =
     \<lparr>err_name = ''Error'', message = ''ENOENT: no such file or directory, open '' @ p,
      err_path = Some p, err_code = Some ''ENOENT''\<rparr>"

definition file_table :: "(string \<times> string) list \<Rightarrow> string \<Rightarrow> js_error + string" where
  "file_table files p = (case map_of files p of None \<Rightarrow> Inl (enoent p) | Some d \<Rightarrow> Inr d)"

definition always :: "'b \<Rightarrow> 'a \<Rightarrow> 'b" where
  "always x y = x"

definition timed_out :: exec_result where
  "timed_out =
     \<lparr>exec_error = Some (new_Error ''Command failed: powershell.exe''),
      stdout = [], stderr = []\<rparr>"

text \<open>
  The \<open>parseInt\<close> of the sample hosts, whose Numbers are integers. It is what
  \<open>Number.parseInt\<close> returns on the texts of the samples, which are ASCII and whose
  numerals are far below \<open>2^53\<close>: leading white space is skipped, then a sign, then
  \<open>0x\<close> or \<open>0X\<close> switches to radix 16, then the longest run of digits is read; no
  digit at all gives \<open>NaN\<close>.
\<close>

definition is_space :: "char \<Rightarrow> bool" where
  "is_space c = (c \<in> set [CHR 0x09, CHR 0x0A, CHR 0x0B, CHR 0x0C, CHR 0x0D, CHR 0x20])"

definition digit_of :: "nat \<Rightarrow> char \<Rightarrow> nat option" where
  "digit_of radix c =
     (let v = (if c \<in> set ''0123456789'' then Some (of_char c - 48)
               else if c \<in> set ''abcdefghijklmnopqrstuvwxyz'' then Some (of_char c - 87)
               else if c \<in> set ''ABCDEFGHIJKLMNOPQRSTUVWXYZ'' then Some (of_char c - 55)
               else None)
      in case v of
           None \<Rightarrow> None
         | Some (d::nat) \<Rightarrow> if d < radix then Some d else None)"

definition ascii_parseInt :: "string \<Rightarrow> int option" where
  "ascii_parseInt input =
     (let s = dropWhile is_space input;
          negative = startsWith s ''-'';
          s1 = (if startsWith s ''+'' \<or> startsWith s ''-'' then tl s else s);
          hex = (startsWith s1 ''0x'' \<or> startsWith s1 ''0X'');
          radix = (if hex then 16 else 10);
          s2 = (if hex then drop 2 s1 else s1);
          z = takeWhile (\<lambda>c. digit_of radix c \<noteq> None) s2;
          mathInt = fold (\<lambda>c acc. acc * radix + the (digit_of radix c)) z 0
      in if z = [] then None
         else Some (if negative then - int mathInt else int mathInt))"

text \<open>The messages Node gives the two type errors (a number is kept as Node prints
  it).\<close>

definition node_received :: "json option \<Rightarrow> string" where
  "node_received v =
     (case v of
        None \<Rightarrow> ''undefined''
      | Some JNull \<Rightarrow> ''null''
      | Some (JBoolean b) \<Rightarrow> ''type boolean ('' @ (if b then ''true'' else ''false'') @ '')''
      | Some (JNumber digits) \<Rightarrow> ''type number ('' @ digits @ '')''
      | Some (JString text) \<Rightarrow> ''type string ('' @ [CHR 0x27] @ text @ [CHR 0x27] @ '')''
      | Some (JArray items) \<Rightarrow> ''an instance of Array''
      | Some (JObject properties) \<Rightarrow> ''an instance of Object'')"

definition node_message :: "runtime_fault \<Rightarrow> string" where
  "node_message fault =
     (case fault of
        PropertyOfNull property_name \<Rightarrow>
          ''Cannot read properties of null (reading '' @ [CHR 0x27] @ property_name @ [CHR 0x27] @ '')''
      | InvalidPathArgument v \<Rightarrow>
          ''The '' @ [CHR 0x22] @ ''path'' @ [CHR 0x22]
          @ '' argument must be of type string. Received '' @ node_received v)"

definition linux_host :: "int host" where
  "linux_host =
     \<lparr>platform = ''linux'', homedir = ''/home/u'', LOCALAPPDATA = None,
      path_join = join_slash, existsSync = exists_only [],
      readFile = file_table [], powershell = always timed_out,
      JSON_parse = always (Inl (new_Error ''Unexpected end of JSON input'')),
      parseInt = ascii_parseInt, TypeError_message = node_message\<rparr>"

definition example_text :: string where
  "example_text =
     ''[a]'' @ [newline] @ ''versionCode=5'' @ [newline] @ ''versionName=foo'' @ [newline]"

definition comments_text :: string where
  "comments_text = ''; a comment'' @ [newline] @ [newline] @ ''; another''"

definition empty_document :: ini_state where
  "empty_document = (\<lparr>global = [], sections = []\<rparr>, GlobalRef)"

text \<open>
  How the loop body reads one line that is neither blank, nor a comment, nor a section
  header, and the map that \<open>currentSection\<close> refers to in a state of the loop.
\<close>

definition keyValueLine :: "string \<Rightarrow> bool" where
  "keyValueLine line =
     (line \<noteq> [] \<and> \<not> startsWith line '';'' \<and> \<not> (startsWith line ''['' \<and> endsWith line '']''))"

definition lineKey :: "string \<Rightarrow> string" where
  "lineKey line = hd (split_limit (CHR ''='') 2 line)"

definition lineValue :: "string \<Rightarrow> string option" where
  "lineValue line =
     (if length (split_limit (CHR ''='') 2 line) < 2 then None
      else Some (split_limit (CHR ''='') 2 line ! 1))"

definition currentMap :: "ini_state \<Rightarrow> ini_map" where
  "currentMap st =
     (case snd st of
        GlobalRef \<Rightarrow> global (fst st)
      | SectionRef name \<Rightarrow>
          (case Map_get (sections (fst st)) name of None \<Rightarrow> [] | Some m \<Rightarrow> m))"

definition keys_distinct :: "('k \<times> 'v) list \<Rightarrow> bool" where
  "keys_distinct m = distinct (map fst m)"

definition ini_inv :: "ini_state \<Rightarrow> bool" where
  "ini_inv st =
     (keys_distinct (global (fst st)) \<and> keys_distinct (sections (fst st)) \<and>
      list_all keys_distinct (map snd (sections (fst st))) \<and>
      (case snd st of
         GlobalRef \<Rightarrow> True
       | SectionRef name \<Rightarrow> name \<in> fst ` set (sections (fst st))))"

definition duplicate_text :: string where
  "duplicate_text = ''[s]'' @ [newline] @ ''k=1'' @ [newline] @ ''k=2''"

text \<open>Documents with named sections, as \<open>selectAssets\<close> receives them.\<close>

definition version_section :: "string \<Rightarrow> string \<Rightarrow> ini_map" where
  "version_section code name = [(''versionCode'', Some code), (''versionName'', Some name)]"

definition tied_versions :: IniData where
  "tied_versions =
     \<lparr>global = [],
      sections = [(''x'', version_section ''1'' ''x''),
                  (''y'', version_section ''2'' ''y''),
                  (''z'', version_section ''2'' ''z'')]\<rparr>"

definition nameless_largest :: IniData where
  "nameless_largest =
     \<lparr>global = [],
      sections = [(''a'', version_section ''9'' ''''),
                  (''b'', version_section ''1'' ''b''),
                  (''c'', version_section ''next'' ''c'')]\<rparr>"

definition no_valid_version :: IniData where
  "no_valid_version =
     \<lparr>global = [(''versionCode'', Some ''3''), (''versionName'', Some ''g'')],
      sections = [(''a'', version_section ''next'' ''a''),
                  (''b'', [(''versionCode'', Some ''7'')]),
                  (''c'', [(''versionName'', Some ''c'')])]\<rparr>"

text \<open>Hosts: a Linux machine with both launcher roots, of which only the second has a
  \<open>versions.ini\<close>; an Android device; a machine of an unsupported platform; Windows
  machines with and without \<open>LOCALAPPDATA\<close> and with the outcomes of the package
  query.\<close>

definition linux_two_roots :: "int host" where
  "linux_two_roots =
     linux_host
       \<lparr>existsSync :=
          exists_only [''/home/u/.local/share/mcpelauncher'',
                       ''/home/u/.var/app/io.mrarm.mcpelauncher/data/mcpelauncher''],
        readFile :=
          file_table [(''/home/u/.var/app/io.mrarm.mcpelauncher/data/mcpelauncher/versions/versions.ini'',
                       comments_text)]\<rparr>"

definition mac_host :: "int host" where
  "mac_host = linux_host\<lparr>platform := ''darwin'', homedir := ''/Users/u''\<rparr>"

definition android_host :: "int host" where
  "android_host = linux_host\<lparr>platform := ''android'', homedir := ''/data''\<rparr>"

definition freebsd_host :: "int host" where
  "freebsd_host = linux_host\<lparr>platform := ''freebsd''\<rparr>"

definition windows_host :: "int host" where
  "windows_host =
     linux_host
       \<lparr>platform := ''win32'', homedir := ''C:/Users/u'',
        LOCALAPPDATA := Some ''C:/Users/u/AppData/Local'',
        powershell := always \<lparr>exec_error = None, stdout = ''{...}'', stderr = []\<rparr>,
        JSON_parse :=
          always (Inr (JObject [(''Name'', JString ''Microsoft.MinecraftUWP''),
                                (''InstallLocation'',
                                 JString ''C:/Program Files/WindowsApps/Microsoft.MinecraftUWP'')]))\<rparr>"

definition windows_no_env :: "int host" where
  "windows_no_env = windows_host\<lparr>LOCALAPPDATA := None\<rparr>"

definition windows_empty_env :: "int host" where
  "windows_empty_env = windows_host\<lparr>LOCALAPPDATA := Some []\<rparr>"

definition windows_timeout :: "int host" where
  "windows_timeout = windows_host\<lparr>powershell := always timed_out\<rparr>"

definition windows_stderr :: "int host" where
  "windows_stderr =
     windows_host
       \<lparr>powershell := always \<lparr>exec_error = None, stdout = [], stderr = ''Access is denied.''\<rparr>\<rparr>"

definition windows_bad_json :: "int host" where
  "windows_bad_json =
     windows_host
       \<lparr>powershell := always \<lparr>exec_error = None, stdout = ''<html>'', stderr = []\<rparr>,
        JSON_parse := always (Inl (new_Error ''Unexpected token < in JSON at position 0''))\<rparr>"

definition android_sdcard :: "int host" where
  "android_sdcard = android_host\<lparr>existsSync := exists_only [''/sdcard/games/com.mojang'']\<rparr>"

text \<open>
  A \<open>versions.ini\<close> with two versions, launcher installations that hold it, and Windows
  machines on which the package query prints \<open>null\<close> and an array of two packages.
\<close>

definition two_versions_text :: string where
  "two_versions_text =
     ''[x]'' @ [newline] @ ''versionCode=1'' @ [newline] @ ''versionName=x'' @ [newline] @
     ''[y]'' @ [newline] @ ''versionCode=2'' @ [newline] @ ''versionName=y'' @ [newline]"

definition linux_two_launchers :: "int host" where
  "linux_two_launchers =
     linux_host
       \<lparr>existsSync :=
          exists_only [''/home/u/.local/share/mcpelauncher'',
                       ''/home/u/.var/app/io.mrarm.mcpelauncher/data/mcpelauncher''],
        readFile :=
          file_table [(''/home/u/.local/share/mcpelauncher/versions/versions.ini'',
                       example_text),
                      (''/home/u/.var/app/io.mrarm.mcpelauncher/data/mcpelauncher/versions/versions.ini'',
                       two_versions_text)]\<rparr>"

definition linux_one_launcher :: "int host" where
  "linux_one_launcher =
     linux_host
       \<lparr>existsSync := exists_only [''/home/u/.local/share/mcpelauncher''],
        readFile :=
          file_table [(''/home/u/.local/share/mcpelauncher/versions/versions.ini'',
                       two_versions_text)]\<rparr>"

definition windows_null_json :: "int host" where
  "windows_null_json =
     windows_host
       \<lparr>powershell := always \<lparr>exec_error = None, stdout = ''null'', stderr = []\<rparr>,
        JSON_parse := always (Inr JNull)\<rparr>"

definition windows_two_packages :: "int host" where
  "windows_two_packages =
     windows_host
       \<lparr>powershell := always \<lparr>exec_error = None, stdout = ''[{...},{...}]'', stderr = []\<rparr>,
        JSON_parse :=
          always (Inr (JArray [JObject [(''InstallLocation'', JString ''C:/a'')],
                               JObject [(''InstallLocation'', JString ''C:/b'')]]))\<rparr>"

text \<open>The error of \<open>checkExists\<close>.\<close>

abbreviation NoCandidatesSurvived :: js_error where
  "NoCandidatesSurvived \<equiv> new_Error not_installed_message"


section \<open>Index numerals\<close>

lemma digit_chr_is_digit: "d < 10 \<Longrightarrow> digit_chr d \<in> set ''0123456789''"
  unfolding digit_chr_def by (rule nth_mem) simp

lemma digit_chr_inj: "a < 10 \<Longrightarrow> b < 10 \<Longrightarrow> digit_chr a = digit_chr b \<Longrightarrow> a = b"
proof -
  assume a: "a < 10" and b: "b < 10" and e: "digit_chr a = digit_chr b"
  have d: "distinct ''0123456789''" by simp
  have "length ''0123456789'' = 10" by simp
  with a b e d show "a = b"
    unfolding digit_chr_def by (metis nth_eq_iff_index_eq)
qed

lemma string_of_nat_nonempty: "string_of_nat n \<noteq> []"
  by (subst string_of_nat.simps) simp

lemma string_of_nat_digits: "set (string_of_nat n) \<subseteq> set ''0123456789''"
proof (induction n rule: string_of_nat.induct)
  case (1 n)
  show ?case
  proof (cases "n < 10")
    case True
    then show ?thesis
      using digit_chr_is_digit [of n] by (subst string_of_nat.simps) simp
  next
    case False
    have "n mod 10 < 10" by simp
    then have "digit_chr (n mod 10) \<in> set ''0123456789''" by (rule digit_chr_is_digit)
    with False 1 show ?thesis by (subst string_of_nat.simps) simp
  qed
qed

lemma string_of_nat_inj: "string_of_nat n = string_of_nat m \<Longrightarrow> n = m"
proof (induction n arbitrary: m rule: string_of_nat.induct)
  case (1 n)
  show ?case
  proof (cases "n < 10")
    case n: True
    show ?thesis
    proof (cases "m < 10")
      case True
      with n 1(2) show ?thesis
        by (simp add: string_of_nat.simps [of n] string_of_nat.simps [of m] digit_chr_inj)
    next
      case False
      with n 1(2) string_of_nat_nonempty [of "m div 10"] show ?thesis
        by (simp add: string_of_nat.simps [of n] string_of_nat.simps [of m])
    qed
  next
    case n: False
    show ?thesis
    proof (cases "m < 10")
      case True
      with n 1(2) string_of_nat_nonempty [of "n div 10"] show ?thesis
        by (simp add: string_of_nat.simps [of n] string_of_nat.simps [of m])
    next
      case False
      with n 1(2) have e: "string_of_nat (n div 10) = string_of_nat (m div 10)"
        and d: "digit_chr (n mod 10) = digit_chr (m mod 10)"
        by (simp_all add: string_of_nat.simps [of n] string_of_nat.simps [of m])
      from 1(1) [OF n e] have q: "n div 10 = m div 10" .
      have "n mod 10 = m mod 10" using d by (intro digit_chr_inj) simp_all
      with q show ?thesis by (metis div_mult_mod_eq)
    qed
  qed
qed

lemma distinct_index_keys: "distinct (map string_of_nat [0..<n])"
  by (simp add: distinct_map inj_on_def string_of_nat_inj)

section \<open>The reader's loop runs over the indices\<close>

text \<open>A split always has a first piece, so \<open>key\<close> is always a string.\<close>

lemma split_chr_nonempty: "split_chr c s \<noteq> []"
  by (induction s) (auto split: list.splits)

lemma split_limit_nonempty: "0 < n \<Longrightarrow> split_limit c n s \<noteq> []"
  by (simp add: split_limit_def split_chr_nonempty)

lemma split_chr_absent: "c \<notin> set s \<Longrightarrow> split_chr c s = [s]"
  by (induction s) auto

lemma parseIni_line_index:
  "parseIni_line (string_of_nat i) (ini, GlobalRef) =
     (ini\<lparr>global := Map_set (string_of_nat i) None (global ini)\<rparr>, GlobalRef)"
proof -
  let ?k = "string_of_nat i"
  have ne: "?k \<noteq> []" by (rule string_of_nat_nonempty)
  have dig: "set ?k \<subseteq> set ''0123456789''" by (rule string_of_nat_digits)
  from ne dig have h: "hd ?k \<in> set ''0123456789''"
    using hd_in_set by blast
  have semi: "\<not> startsWith ?k '';''"
  proof
    assume "startsWith ?k '';''"
    with ne have "hd ?k = CHR '';''" by (cases ?k) (simp_all add: startsWith_def)
    with h show False by simp
  qed
  have brack: "\<not> startsWith ?k ''[''"
  proof
    assume "startsWith ?k ''[''"
    with ne have "hd ?k = CHR ''[''" by (cases ?k) (simp_all add: startsWith_def)
    with h show False by simp
  qed
  have "CHR ''='' \<notin> set ?k" using dig by auto
  then have sp: "split_limit (CHR ''='') 2 ?k = [?k]"
    by (simp add: split_limit_def split_chr_absent)
  show ?thesis
    by (simp add: parseIni_line_def ne semi brack sp section_set_def)
qed

lemma fold_parseIni_line_index:
  "fold parseIni_line (map string_of_nat is) (ini, GlobalRef) =
     (ini\<lparr>global := fold (\<lambda>i. Map_set (string_of_nat i) None) is (global ini)\<rparr>, GlobalRef)"
  by (induction "is" arbitrary: ini) (simp_all add: parseIni_line_index)

lemma Map_set_fresh: "k \<notin> fst ` set m \<Longrightarrow> Map_set k v m = m @ [(k, v)]"
  by (induction m) auto

lemma fold_Map_set_fresh:
  "distinct (map f ks) \<Longrightarrow> f ` set ks \<inter> fst ` set m = {} \<Longrightarrow>
   fold (\<lambda>k. Map_set (f k) v) ks m = m @ map (\<lambda>k. (f k, v)) ks"
proof (induction ks arbitrary: m)
  case Nil
  then show ?case by simp
next
  case (Cons k ks)
  from Cons.prems have fresh: "f k \<notin> fst ` set m" by auto
  have step: "Map_set (f k) v m = m @ [(f k, v)]" using fresh by (rule Map_set_fresh)
  from Cons.prems have d: "distinct (map f ks)" by simp
  from Cons.prems have "f ` set ks \<inter> fst ` set (m @ [(f k, v)]) = {}" by auto
  from Cons.IH [OF d this] step show ?case by simp
qed

text \<open>
  Whatever the text, the document has no section, and its global map has one entry per
  line of the text: the line's index, without a value.
\<close>

lemma parseIni_index_keys:
  "parseIni data =
     \<lparr>global = map (\<lambda>k. (k, None)) (array_keys (split_chr newline data)), sections = []\<rparr>"
proof -
  let ?n = "length (split_chr newline data)"
  have "fold (\<lambda>i. Map_set (string_of_nat i) (None :: string option)) [0..<?n] [] =
        [] @ map (\<lambda>i. (string_of_nat i, None)) [0..<?n]"
    by (rule fold_Map_set_fresh) (simp_all add: distinct_index_keys)
  then show ?thesis
    by (simp add: parseIni_def array_keys_def fold_parseIni_line_index comp_def)
qed

lemma array_keys_4: "array_keys [a, b, c, d] = [''0'', ''1'', ''2'', ''3'']"
  by (simp add: array_keys_def upt_rec string_of_nat.simps digit_chr_def)

lemma array_keys_7:
  "array_keys [a, b, c, d, e, f, g] = [''0'', ''1'', ''2'', ''3'', ''4'', ''5'', ''6'']"
  by (simp add: array_keys_def upt_rec string_of_nat.simps digit_chr_def)

lemma array_keys_3: "array_keys [a, b, c] = [''0'', ''1'', ''2'']"
  by (simp add: array_keys_def upt_rec string_of_nat.simps digit_chr_def)

lemma split_example_text:
  "split_chr newline example_text = [''[a]'', ''versionCode=5'', ''versionName=foo'', '''']"
  by (simp add: example_text_def newline_def)

lemma split_comments_text:
  "split_chr newline comments_text = [''; a comment'', '''', ''; another'']"
  by (simp add: comments_text_def newline_def)

text \<open>
  C1. The claim: parsing \<open>"[a]\nversionCode=5\nversionName=foo\n"\<close> yields exactly one
  section \<open>a\<close> with \<open>versionCode="5"\<close> and \<open>versionName="foo"\<close>, and parsing a text of
  comment and blank lines only yields an empty global mapping and no section. What
  \<open>parseIni\<close> computes on these two texts: no section in either case, and a global
  mapping that holds the line indices as keys, each without a value. The loop is
  written \<open>for (const line in lines)\<close>, while its body tests \<open>line\<close> for a comment, a
  section header and a key/value pair.
\<close>

theorem parseIni_example_has_no_section:
  "parseIni example_text =
     \<lparr>global = [(''0'', None), (''1'', None), (''2'', None), (''3'', None)], sections = []\<rparr>
   \<and> parseIni comments_text =
     \<lparr>global = [(''0'', None), (''1'', None), (''2'', None)], sections = []\<rparr>"
  by (simp add: parseIni_index_keys split_example_text split_comments_text
      array_keys_4 array_keys_3)

section \<open>Overwriting insertion in the reader's loop body\<close>

lemma Map_get_Map_set_same: "Map_get (Map_set k v m) k = Some v"
  by (induction m) (auto simp: Map_get_def)

lemma Map_set_keys: "fst ` set (Map_set k v m) = insert k (fst ` set m)"
  by (induction m) auto

lemma keys_distinct_Map_set: "keys_distinct m \<Longrightarrow> keys_distinct (Map_set k v m)"
  unfolding keys_distinct_def
proof (induction m)
  case Nil
  then show ?case by simp
next
  case (Cons e m)
  then show ?case using Map_set_keys [of k v m] by (auto simp: image_iff)
qed

lemma stored_once:
  "keys_distinct m \<Longrightarrow> k \<in> fst ` set m \<Longrightarrow> length (filter (\<lambda>e. fst e = k) m) = 1"
  unfolding keys_distinct_def
proof (induction m)
  case Nil
  then show ?case by simp
next
  case (Cons e m)
  show ?case
  proof (cases "fst e = k")
    case True
    with Cons.prems have "k \<notin> fst ` set m" by auto
    then have "filter (\<lambda>e. fst e = k) m = []" by (auto simp: filter_empty_conv)
    with True show ?thesis by simp
  next
    case False
    with Cons show ?thesis by auto
  qed
qed

lemma Map_get_update_section:
  "Map_get (map (\<lambda>(n, m). if n = name then (n, f m) else (n, m)) ss) name =
     map_option f (Map_get ss name)"
  by (induction ss) (auto simp: Map_get_def)

lemma keys_update_section:
  "map fst (map (\<lambda>(n, m). if n = name then (n, f m) else (n, m)) ss) = map fst ss"
  by (induction ss) auto

lemma Map_get_in_keys: "k \<in> fst ` set m \<Longrightarrow> \<exists>v. Map_get m k = Some v"
  by (induction m) (auto simp: Map_get_def)

lemma Map_get_in_set: "Map_get m k = Some v \<Longrightarrow> (k, v) \<in> set m"
  unfolding Map_get_def by (rule map_of_SomeD)

lemma parseIni_line_keyValue:
  assumes "keyValueLine l"
  shows "parseIni_line l st =
           (section_set (snd st) (lineKey l) (lineValue l) (fst st), snd st)"
proof -
  from assms have a: "l \<noteq> []" and b: "\<not> startsWith l '';''"
    and c: "\<not> (startsWith l ''['' \<and> endsWith l '']'')"
    by (simp_all add: keyValueLine_def)
  obtain ini r where st: "st = (ini, r)" by (cases st)
  show ?thesis
    unfolding st parseIni_line_def lineKey_def lineValue_def Let_def
    using a b c by (simp only: split if_False simp_thms fst_conv snd_conv)
qed

lemma currentMap_section_set:
  assumes "ini_inv (ini, r)"
  shows "currentMap (section_set r k v ini, r) = Map_set k v (currentMap (ini, r))"
proof (cases r)
  case GlobalRef
  then show ?thesis by (simp add: currentMap_def section_set_def)
next
  case (SectionRef name)
  with assms have "name \<in> fst ` set (sections ini)" by (simp add: ini_inv_def)
  then obtain m where "Map_get (sections ini) name = Some m"
    using Map_get_in_keys by fastforce
  with SectionRef show ?thesis
    by (simp add: currentMap_def section_set_def Map_get_update_section)
qed

lemma list_all_update_section:
  "list_all P (map snd ss) \<Longrightarrow> (\<And>m. P m \<Longrightarrow> P (f m)) \<Longrightarrow>
   list_all P (map snd (map (\<lambda>(n, m). if n = name then (n, f m) else (n, m)) ss))"
  by (induction ss) auto

lemma ini_inv_section_set:
  assumes "ini_inv (ini, r)"
  shows "ini_inv (section_set r k v ini, r)"
proof (cases r)
  case GlobalRef
  with assms show ?thesis
    by (simp add: ini_inv_def section_set_def keys_distinct_Map_set)
next
  case (SectionRef name)
  let ?ss = "map (\<lambda>(n, m). if n = name then (n, Map_set k v m) else (n, m)) (sections ini)"
  from assms have la: "list_all keys_distinct (map snd (sections ini))"
    and kd: "keys_distinct (sections ini)" and g: "keys_distinct (global ini)"
    and mem: "name \<in> fst ` set (sections ini)"
    using SectionRef by (simp_all add: ini_inv_def)
  have 1: "list_all keys_distinct (map snd ?ss)"
    using la by (rule list_all_update_section) (rule keys_distinct_Map_set)
  have keys: "map fst ?ss = map fst (sections ini)" by (rule keys_update_section)
  have 2: "keys_distinct ?ss" using kd unfolding keys_distinct_def keys .
  have "set (map fst ?ss) = set (map fst (sections ini))" by (simp only: keys)
  then have 3: "name \<in> fst ` set ?ss" using mem by (simp only: set_map)
  have eq: "section_set r k v ini = ini\<lparr>sections := ?ss\<rparr>"
    using SectionRef by (simp add: section_set_def)
  have s1: "sections (ini\<lparr>sections := ?ss\<rparr>) = ?ss" by simp
  have s2: "global (ini\<lparr>sections := ?ss\<rparr>) = global ini" by simp
  show ?thesis
    unfolding eq ini_inv_def fst_conv snd_conv s1 s2 using 1 2 3 g SectionRef
    by simp
qed

lemma list_all_Map_set:
  "list_all P (map snd ss) \<Longrightarrow> P v \<Longrightarrow> list_all P (map snd (Map_set k v ss))"
  by (induction ss) auto

lemma ini_inv_parseIni_line: "ini_inv st \<Longrightarrow> ini_inv (parseIni_line l st)"
proof -
  assume inv: "ini_inv st"
  obtain ini r where st: "st = (ini, r)" by (cases st)
  show ?thesis
  proof (cases "l = [] \<or> startsWith l '';''")
    case True
    with inv st show ?thesis by (auto simp add: parseIni_line_def)
  next
    case skip: False
    show ?thesis
    proof (cases "startsWith l ''['' \<and> endsWith l '']''")
      case True
      have e: "keys_distinct ([] :: ini_map)" by (simp add: keys_distinct_def)
      from inv st have "list_all keys_distinct (map snd (sections ini))"
        by (simp add: ini_inv_def)
      then have "list_all keys_distinct (map snd (Map_set (slice_1_m1 l) [] (sections ini)))"
        using e by (rule list_all_Map_set)
      with inv st skip True show ?thesis
        by (simp add: parseIni_line_def ini_inv_def keys_distinct_Map_set Map_set_keys)
    next
      case False
      with skip have "keyValueLine l" by (simp add: keyValueLine_def)
      with inv st show ?thesis
        by (simp add: parseIni_line_keyValue ini_inv_section_set)
    qed
  qed
qed

lemma ini_inv_empty: "ini_inv empty_document"
  by (simp add: ini_inv_def empty_document_def keys_distinct_def)

lemma ini_inv_fold: "ini_inv st \<Longrightarrow> ini_inv (fold parseIni_line ls st)"
  by (induction ls arbitrary: st) (simp_all add: ini_inv_parseIni_line)

text \<open>
  What the loop body does with a key/value line, whatever lines it has processed
  before: the current section then holds the key of the line once, with the value of
  the line. A value stored earlier under the same key is overwritten.
\<close>

lemma key_value_line_overwrites:
  assumes "keyValueLine l"
  shows "Map_get (currentMap (fold parseIni_line (ls @ [l]) empty_document)) (lineKey l)
           = Some (lineValue l)
         \<and> length (filter (\<lambda>e. fst e = lineKey l)
                     (currentMap (fold parseIni_line (ls @ [l]) empty_document))) = 1"
proof -
  define st where "st = fold parseIni_line ls empty_document"
  have inv: "ini_inv st"
    unfolding st_def by (intro ini_inv_fold ini_inv_empty)
  have fin: "fold parseIni_line (ls @ [l]) empty_document = parseIni_line l st"
    by (simp add: st_def)
  obtain ini r where st: "st = (ini, r)" by (cases st)
  have cur: "currentMap (parseIni_line l st) = Map_set (lineKey l) (lineValue l) (currentMap st)"
    using inv assms st by (simp add: parseIni_line_keyValue currentMap_section_set)
  have kd: "keys_distinct (currentMap st)"
  proof (cases r)
    case GlobalRef
    with inv st show ?thesis by (simp add: currentMap_def ini_inv_def)
  next
    case (SectionRef name)
    show ?thesis
    proof (cases "Map_get (sections ini) name")
      case None
      with SectionRef st show ?thesis by (simp add: currentMap_def keys_distinct_def)
    next
      case (Some m)
      then have "m \<in> snd ` set (sections ini)"
        using Map_get_in_set by (metis image_eqI snd_conv)
      with inv st have "keys_distinct m" by (auto simp: ini_inv_def list_all_iff)
      with Some SectionRef st show ?thesis by (simp add: currentMap_def)
    qed
  qed
  have one: "length (filter (\<lambda>e. fst e = lineKey l)
               (Map_set (lineKey l) (lineValue l) (currentMap st))) = 1"
    by (rule stored_once) (simp_all add: keys_distinct_Map_set kd Map_set_keys)
  show ?thesis
    unfolding fin cur using one by (simp add: Map_get_Map_set_same)
qed

lemma split_duplicate_text:
  "split_chr newline duplicate_text = [''[s]'', ''k=1'', ''k=2'']"
  by (simp add: duplicate_text_def newline_def)

lemma parseIni_duplicate_text:
  "parseIni duplicate_text =
     \<lparr>global = [(''0'', None), (''1'', None), (''2'', None)], sections = []\<rparr>"
  by (simp add: parseIni_index_keys split_duplicate_text array_keys_3)

text \<open>
  C7. The claim: when two key/value lines of one section carry the same key, the
  document holds the key once, with the value of the first line. What \<open>parseIni\<close>
  returns for the text \<open>"[s]\nk=1\nk=2"\<close>: a document without any section, whose global
  mapping holds the three line indices and no key \<open>k\<close>. Neither occurrence of the key
  is stored; the loop runs over the indices of the lines (see C1).
\<close>

theorem duplicate_key_is_not_stored:
  "parseIni duplicate_text =
     \<lparr>global = [(''0'', None), (''1'', None), (''2'', None)], sections = []\<rparr>
   \<and> Map_get (sections (parseIni duplicate_text)) ''s'' = None
   \<and> Map_get (global (parseIni duplicate_text)) ''k'' = None"
  by (simp add: parseIni_duplicate_text Map_get_def)

section \<open>The version selector on a parsed document\<close>

lemma parseInt_samples:
  "ascii_parseInt ''1'' = Some 1" "ascii_parseInt ''2'' = Some 2"
  "ascii_parseInt ''9'' = Some 9" "ascii_parseInt ''7'' = Some 7"
  "ascii_parseInt ''next'' = None" "ascii_parseInt ''undefined'' = None"
  by (simp_all add: ascii_parseInt_def is_space_def startsWith_def digit_of_def Let_def)

lemma parseVersionSection_sample:
  "parseVersionSection h (version_section code name) =
     \<lparr>versionCode = parseInt h code, versionName = name\<rparr>"
  by (simp add: parseVersionSection_def version_section_def Map_get_def)

lemma sample_joins:
  "path_join linux_host = join_slash" "path_join linux_two_roots = join_slash"
  "path_join linux_one_launcher = join_slash" "path_join linux_two_launchers = join_slash"
  by (simp_all add: linux_host_def linux_two_roots_def linux_one_launcher_def
      linux_two_launchers_def)

lemma sample_parsers:
  "parseInt linux_host = ascii_parseInt" "parseInt linux_two_roots = ascii_parseInt"
  "parseInt linux_one_launcher = ascii_parseInt" "parseInt linux_two_launchers = ascii_parseInt"
  by (simp_all add: linux_host_def linux_two_roots_def linux_one_launcher_def
      linux_two_launchers_def)

lemma number_gt_Some: "number_gt (Some a) (Some b) = (b < a)"
  by (simp add: number_gt_def)

lemma laterVersion_self: "laterVersion v v = v"
  by (simp add: laterVersion_def)

lemma cons_split: "ys = pre @ r # post \<Longrightarrow> m # ys = (m # pre) @ r # post"
  by simp

lemma cons2_split: "ys = pre @ r # post \<Longrightarrow> a # b # ys = (a # b # pre) @ r # post"
  by simp

text \<open>The running maximum splits the list it has seen.\<close>

lemma fold_laterVersion_split:
  assumes "\<forall>x\<in>set (m # xs). \<exists>c. versionCode x = Some c"
  shows "\<exists>pre post c. m # xs = pre @ fold laterVersion xs m # post
           \<and> versionCode (fold laterVersion xs m) = Some c
           \<and> (\<forall>w\<in>set pre. \<exists>d. versionCode w = Some d \<and> d < c)
           \<and> (\<forall>w\<in>set post. \<exists>d. versionCode w = Some d \<and> d \<le> c)"
  using assms
proof (induction xs arbitrary: m)
  case Nil
  then obtain c where "versionCode m = Some c" by auto
  then have "[m] = [] @ fold laterVersion [] m # [] \<and> versionCode (fold laterVersion [] m) = Some c
      \<and> (\<forall>w\<in>set []. \<exists>d. versionCode w = Some d \<and> d < c)
      \<and> (\<forall>w\<in>set []. \<exists>d. versionCode w = Some d \<and> d \<le> c)" by simp
  then show ?case by blast
next
  case (Cons x xs)
  from Cons.prems obtain cm cx where cm: "versionCode m = Some cm" and cx: "versionCode x = Some cx"
    by auto
  let ?r = "fold laterVersion (x # xs) m"
  show ?case
  proof (cases "cm < cx")
    case True
    then have step: "laterVersion x m = x" by (simp add: laterVersion_def cm cx number_gt_Some)
    from Cons.prems have "\<forall>y\<in>set (x # xs). \<exists>c. versionCode y = Some c" by simp
    from Cons.IH [OF this] obtain pre post c where
      sp: "x # xs = pre @ fold laterVersion xs x # post"
      and c: "versionCode (fold laterVersion xs x) = Some c"
      and lo: "\<forall>w\<in>set pre. \<exists>d. versionCode w = Some d \<and> d < c"
      and hi: "\<forall>w\<in>set post. \<exists>d. versionCode w = Some d \<and> d \<le> c" by blast
    have r: "?r = fold laterVersion xs x" by (simp add: step)
    have "cx \<le> c"
    proof (cases pre)
      case Nil
      with sp have "fold laterVersion xs x = x" by (metis append_Nil list.inject)
      with c cx show ?thesis by simp
    next
      case (Cons p ps)
      with sp have "x \<in> set pre" by simp
      with lo cx show ?thesis by fastforce
    qed
    with True have "cm < c" by (rule less_le_trans)
    with lo cm have lo': "\<forall>w\<in>set (m # pre). \<exists>d. versionCode w = Some d \<and> d < c" by simp
    from sp have "m # x # xs = (m # pre) @ fold laterVersion xs x # post"
      by (rule cons_split)
    with c lo' hi r show ?thesis by metis
  next
    case False
    then have step: "laterVersion x m = m" by (simp add: laterVersion_def cm cx number_gt_Some)
    from Cons.prems have "\<forall>y\<in>set (m # xs). \<exists>c. versionCode y = Some c" by simp
    from Cons.IH [OF this] obtain pre post c where
      sp: "m # xs = pre @ fold laterVersion xs m # post"
      and c: "versionCode (fold laterVersion xs m) = Some c"
      and lo: "\<forall>w\<in>set pre. \<exists>d. versionCode w = Some d \<and> d < c"
      and hi: "\<forall>w\<in>set post. \<exists>d. versionCode w = Some d \<and> d \<le> c" by blast
    have r: "?r = fold laterVersion xs m" by (simp add: step)
    show ?thesis
    proof (cases pre)
      case Nil
      with sp have rm: "fold laterVersion xs m = m" and xs: "xs = post"
        by (metis append_Nil list.inject)+
      with c cm have "c = cm" by simp
      with False have "cx \<le> c" by simp
      with hi cx have hi': "\<forall>w\<in>set (x # post). \<exists>d. versionCode w = Some d \<and> d \<le> c" by simp
      have "m # x # xs = [] @ fold laterVersion xs m # (x # post)"
        unfolding rm using xs by simp
      moreover have "\<forall>w\<in>set []. \<exists>d. versionCode w = Some d \<and> d < c" by simp
      ultimately show ?thesis using c hi' r by metis
    next
      case (Cons p ps)
      with sp have p: "p = m" and xs: "xs = ps @ fold laterVersion xs m # post"
        by (metis append_Cons list.inject)+
      from lo Cons p cm have "cm < c" by fastforce
      with False have "cx < c" by (metis not_less le_less_trans)
      with lo cx Cons p have lo': "\<forall>w\<in>set (m # x # ps). \<exists>d. versionCode w = Some d \<and> d < c"
        by simp
      from xs have "m # x # xs = (m # x # ps) @ fold laterVersion xs m # post"
        by (rule cons2_split)
      with c lo' hi r show ?thesis by metis
    qed
  qed
qed

lemma parsedVersions_valid:
  "v \<in> set (parsedVersions h iniData) \<Longrightarrow> (\<exists>c. versionCode v = Some c) \<and> versionName v \<noteq> []"
  by (auto simp: parsedVersions_def validVersion_def)

lemma findMaxVersion_split:
  assumes "vs \<noteq> []" and "\<forall>x\<in>set vs. \<exists>c. versionCode x = Some c"
  shows "\<exists>pre v post c. vs = pre @ v # post \<and> findMaxVersion vs = Some v
           \<and> versionCode v = Some c
           \<and> (\<forall>w\<in>set pre. \<exists>d. versionCode w = Some d \<and> d < c)
           \<and> (\<forall>w\<in>set post. \<exists>d. versionCode w = Some d \<and> d \<le> c)"
proof -
  from assms(1) obtain m xs where vs: "vs = m # xs" by (cases vs) auto
  have f: "findMaxVersion vs = Some (fold laterVersion xs m)"
    by (simp add: vs findMaxVersion_def laterVersion_self)
  from assms(2) vs have "\<forall>x\<in>set (m # xs). \<exists>c. versionCode x = Some c" by simp
  from fold_laterVersion_split [OF this] f vs show ?thesis by metis
qed

text \<open>
  Lines 213 to 228 on a document that has a valid record: the path returned is the one
  of a valid record \<open>v\<close> such that every valid record before \<open>v\<close> has a strictly smaller
  code and every valid record after it a code that is not greater.
\<close>

lemma selectAssets_first_greatest:
  assumes "parsedVersions h iniData \<noteq> []"
  shows "\<exists>pre v post c.
           parsedVersions h iniData = pre @ v # post
         \<and> versionCode v = Some c \<and> versionName v \<noteq> []
         \<and> (\<forall>w\<in>set pre. \<exists>d. versionCode w = Some d \<and> d < c)
         \<and> (\<forall>w\<in>set post. \<exists>d. versionCode w = Some d \<and> d \<le> c)
         \<and> selectAssets h rootInstallPath versionsIniPath iniData =
             Inr (path_join h [rootInstallPath, ''versions'', versionName v, ''assets''])"
proof -
  have "\<forall>x\<in>set (parsedVersions h iniData). \<exists>c. versionCode x = Some c"
    using parsedVersions_valid by blast
  from findMaxVersion_split [OF assms this] obtain pre v post c where
    sp: "parsedVersions h iniData = pre @ v # post"
    and f: "findMaxVersion (parsedVersions h iniData) = Some v"
    and c: "versionCode v = Some c"
    and lo: "\<forall>w\<in>set pre. \<exists>d. versionCode w = Some d \<and> d < c"
    and hi: "\<forall>w\<in>set post. \<exists>d. versionCode w = Some d \<and> d \<le> c" by blast
  from sp have "v \<in> set (parsedVersions h iniData)" by simp
  then have n: "versionName v \<noteq> []" using parsedVersions_valid by blast
  have "selectAssets h rootInstallPath versionsIniPath iniData =
          Inr (path_join h [rootInstallPath, ''versions'', versionName v, ''assets''])"
    by (simp add: selectAssets_def f)
  with sp c n lo hi show ?thesis by blast
qed

lemma parsedVersions_tied:
  "parsedVersions linux_host tied_versions =
     [\<lparr>versionCode = Some 1, versionName = ''x''\<rparr>,
      \<lparr>versionCode = Some 2, versionName = ''y''\<rparr>,
      \<lparr>versionCode = Some 2, versionName = ''z''\<rparr>]"
  by (simp add: parsedVersions_def sectionRecords_def tied_versions_def Map_values_def
      parseVersionSection_sample sample_parsers parseInt_samples validVersion_def)


lemma selectAssets_tied_versions:
  "selectAssets linux_host ''/r'' ''/r/versions/versions.ini'' tied_versions =
     Inr ''/r/versions/y/assets''"
  by (simp add: selectAssets_def parsedVersions_tied findMaxVersion_def laterVersion_def
      number_gt_def sample_joins)

lemma fold_laterVersion_in: "fold laterVersion xs m \<in> set (m # xs)"
proof (induction xs arbitrary: m)
  case Nil
  show ?case by simp
next
  case (Cons x xs)
  have "fold laterVersion xs (laterVersion x m) \<in> set (laterVersion x m # xs)"
    by (rule Cons.IH)
  moreover have "laterVersion x m = x \<or> laterVersion x m = m"
    by (simp add: laterVersion_def)
  ultimately show ?case by auto
qed

lemma findMaxVersion_in: "findMaxVersion vs = Some v \<Longrightarrow> v \<in> set vs"
  using fold_laterVersion_in [of "tl vs" "hd vs"]
  by (cases vs) (auto simp: findMaxVersion_def laterVersion_self)

lemma findMaxVersion_None: "findMaxVersion vs = None \<longleftrightarrow> vs = []"
  by (cases vs) (simp_all add: findMaxVersion_def)

lemma getAssetsLocation_mcpelauncher_read:
  "readFile h (path_join h [root, ''versions/versions.ini'']) = Inr data \<Longrightarrow>
   snd (getAssetsLocation_mcpelauncher h root) =
     selectAssets h root (path_join h [root, ''versions/versions.ini'']) (parseIni data)"
  by (simp add: getAssetsLocation_mcpelauncher_def readIni_def Let_def)

text \<open>
  C5. The records kept are exactly the section records with a numeric \<open>versionCode\<close>
  and a non-empty \<open>versionName\<close>; a path that is returned is the path of such a
  record, so a record without a name is never selected, whatever its code; and when no
  section record is valid the selector fails with an error whose message ends with the
  path of the \<open>versions.ini\<close> file it was given, which in
  \<open>getAssetsLocation_mcpelauncher\<close> is \<open>path.join(root, "versions/versions.ini")\<close>.
\<close>

theorem selector_discards_invalid_records:
  "set (parsedVersions h iniData) =
     {v \<in> set (sectionRecords h iniData). versionCode v \<noteq> None \<and> versionName v \<noteq> []}
   \<and> (\<forall>p. selectAssets h root ip iniData = Inr p \<longrightarrow>
          (\<exists>v\<in>set (sectionRecords h iniData). versionCode v \<noteq> None \<and> versionName v \<noteq> []
             \<and> p = path_join h [root, ''versions'', versionName v, ''assets'']))
   \<and> ((\<forall>v\<in>set (sectionRecords h iniData). versionCode v = None \<or> versionName v = []) \<longrightarrow>
        selectAssets h root ip iniData =
          Inl (new_Error (no_valid_version_message ip)))
   \<and> (\<forall>data. readFile h (path_join h [root, ''versions/versions.ini'']) = Inr data
          \<and> (\<forall>v\<in>set (sectionRecords h (parseIni data)). versionCode v = None \<or> versionName v = []) \<longrightarrow>
        snd (getAssetsLocation_mcpelauncher h root) =
          Inl (new_Error (no_valid_version_message (path_join h [root, ''versions/versions.ini'']))))
   \<and> no_valid_version_message ip =
        ''Could not determine the location of Bedrock's asset files. The mcpe-launcher versions file did not contain a valid version (or the format has been changed).'' @ [newline] @ ''Path: '' @ ip"
proof -
  have kept: "set (parsedVersions h iniData) =
     {v \<in> set (sectionRecords h iniData). versionCode v \<noteq> None \<and> versionName v \<noteq> []}"
    by (auto simp: parsedVersions_def validVersion_def)
  have sel: "\<forall>p. selectAssets h root ip iniData = Inr p \<longrightarrow>
          (\<exists>v\<in>set (sectionRecords h iniData). versionCode v \<noteq> None \<and> versionName v \<noteq> []
             \<and> p = path_join h [root, ''versions'', versionName v, ''assets''])"
  proof (intro allI impI)
    fix p assume r: "selectAssets h root ip iniData = Inr p"
    then obtain v where f: "findMaxVersion (parsedVersions h iniData) = Some v"
      and p: "p = path_join h [root, ''versions'', versionName v, ''assets'']"
      by (auto simp: selectAssets_def split: option.splits)
    from f have "v \<in> set (parsedVersions h iniData)" by (rule findMaxVersion_in)
    with kept p show "\<exists>v\<in>set (sectionRecords h iniData). versionCode v \<noteq> None \<and> versionName v \<noteq> []
             \<and> p = path_join h [root, ''versions'', versionName v, ''assets'']" by blast
  qed
  have none: "\<And>ini ip. \<forall>v\<in>set (sectionRecords h ini). versionCode v = None \<or> versionName v = [] \<Longrightarrow>
        selectAssets h root ip ini =
          Inl (new_Error (no_valid_version_message ip))"
  proof -
    fix ini ip
    assume "\<forall>v\<in>set (sectionRecords h ini). versionCode v = None \<or> versionName v = []"
    then have "parsedVersions h ini = []"
      by (auto simp: parsedVersions_def validVersion_def filter_empty_conv)
    then show "selectAssets h root ip ini =
          Inl (new_Error (no_valid_version_message ip))"
      by (simp add: selectAssets_def findMaxVersion_def)
  qed
  have full: "\<forall>data. readFile h (path_join h [root, ''versions/versions.ini'']) = Inr data
          \<and> (\<forall>v\<in>set (sectionRecords h (parseIni data)). versionCode v = None \<or> versionName v = []) \<longrightarrow>
        snd (getAssetsLocation_mcpelauncher h root) =
          Inl (new_Error (no_valid_version_message (path_join h [root, ''versions/versions.ini''])))"
    using none getAssetsLocation_mcpelauncher_read [of h root] by auto
  have msg: "no_valid_version_message ip =
        ''Could not determine the location of Bedrock's asset files. The mcpe-launcher versions file did not contain a valid version (or the format has been changed).'' @ [newline] @ ''Path: '' @ ip"
    by (simp only: no_valid_version_message_def)
  from none have none': "(\<forall>v\<in>set (sectionRecords h iniData). versionCode v = None \<or> versionName v = []) \<longrightarrow>
        selectAssets h root ip iniData = Inl (new_Error (no_valid_version_message ip))"
    by blast
  from kept sel none' full msg show ?thesis by (intro conjI)
qed


lemma sectionRecords_nameless_largest:
  "sectionRecords linux_host nameless_largest =
     [\<lparr>versionCode = Some 9, versionName = []\<rparr>,
      \<lparr>versionCode = Some 1, versionName = ''b''\<rparr>,
      \<lparr>versionCode = None, versionName = ''c''\<rparr>]"
  by (simp add: sectionRecords_def nameless_largest_def Map_values_def
      parseVersionSection_sample sample_parsers parseInt_samples)

lemma sectionRecords_no_valid_version:
  "sectionRecords linux_host no_valid_version =
     [\<lparr>versionCode = None, versionName = ''a''\<rparr>,
      \<lparr>versionCode = Some 7, versionName = []\<rparr>,
      \<lparr>versionCode = None, versionName = ''c''\<rparr>]"
proof -
  have b: "parseVersionSection linux_host [(''versionCode'', Some ''7'')] =
             \<lparr>versionCode = Some 7, versionName = []\<rparr>"
    by (simp add: parseVersionSection_def Map_get_def sample_parsers parseInt_samples)
  have c: "parseVersionSection linux_host [(''versionName'', Some ''c'')] =
             \<lparr>versionCode = None, versionName = ''c''\<rparr>"
    by (simp add: parseVersionSection_def Map_get_def sample_parsers parseInt_samples)
  show ?thesis
    by (simp add: sectionRecords_def no_valid_version_def Map_values_def
        parseVersionSection_sample b c sample_parsers parseInt_samples)
qed

lemma sectionRecords_parseIni: "sectionRecords h (parseIni data) = []"
  by (simp add: sectionRecords_def parseIni_index_keys Map_values_def)

lemma readFile_second_root:
  "readFile linux_two_roots
     (path_join linux_two_roots
        [''/home/u/.var/app/io.mrarm.mcpelauncher/data/mcpelauncher'', ''versions/versions.ini''])
   = Inr comments_text"
  by (simp add: linux_two_roots_def linux_host_def file_table_def)

theorem selector_discards_invalid_records_witness:
  "parsedVersions linux_host nameless_largest = [\<lparr>versionCode = Some 1, versionName = ''b''\<rparr>]
   \<and> selectAssets linux_host ''/r'' ''/r/versions/versions.ini'' nameless_largest =
       Inr ''/r/versions/b/assets''
   \<and> parsedVersions linux_host no_valid_version = []
   \<and> selectAssets linux_host ''/r'' ''/r/versions/versions.ini'' no_valid_version =
       Inl (new_Error (no_valid_version_message ''/r/versions/versions.ini''))
   \<and> snd (getAssetsLocation_mcpelauncher linux_two_roots
             ''/home/u/.var/app/io.mrarm.mcpelauncher/data/mcpelauncher'') =
       Inl (new_Error (no_valid_version_message ''/home/u/.var/app/io.mrarm.mcpelauncher/data/mcpelauncher/versions/versions.ini''))"
proof -
  have a: "parsedVersions linux_host nameless_largest = [\<lparr>versionCode = Some 1, versionName = ''b''\<rparr>]"
    by (simp add: parsedVersions_def sectionRecords_nameless_largest validVersion_def)
  have b: "selectAssets linux_host ''/r'' ''/r/versions/versions.ini'' nameless_largest =
       Inr ''/r/versions/b/assets''"
    by (simp add: selectAssets_def a findMaxVersion_def laterVersion_def number_gt_def
        sample_joins)
  have c: "parsedVersions linux_host no_valid_version = []"
    by (simp add: parsedVersions_def sectionRecords_no_valid_version validVersion_def)
  have h1: "\<forall>v\<in>set (sectionRecords linux_host no_valid_version). versionCode v = None \<or> versionName v = []"
    by (simp add: sectionRecords_no_valid_version)
  have h2: "\<forall>v\<in>set (sectionRecords linux_two_roots (parseIni comments_text)). versionCode v = None \<or> versionName v = []"
    by (simp add: sectionRecords_parseIni)
  have p: "path_join linux_two_roots
        [''/home/u/.var/app/io.mrarm.mcpelauncher/data/mcpelauncher'', ''versions/versions.ini'']
      = ''/home/u/.var/app/io.mrarm.mcpelauncher/data/mcpelauncher/versions/versions.ini''"
    by (simp add: sample_joins)
  from selector_discards_invalid_records
    [where h = linux_host and iniData = no_valid_version and root = "''/r''"
       and ip = "''/r/versions/versions.ini''"] h1
  have d: "selectAssets linux_host ''/r'' ''/r/versions/versions.ini'' no_valid_version =
       Inl (new_Error (no_valid_version_message ''/r/versions/versions.ini''))"
    by simp
  from selector_discards_invalid_records
    [where h = linux_two_roots and iniData = no_valid_version
       and root = "''/home/u/.var/app/io.mrarm.mcpelauncher/data/mcpelauncher''"]
    readFile_second_root h2
  have e: "snd (getAssetsLocation_mcpelauncher linux_two_roots
             ''/home/u/.var/app/io.mrarm.mcpelauncher/data/mcpelauncher'') =
       Inl (new_Error (no_valid_version_message (path_join linux_two_roots
        [''/home/u/.var/app/io.mrarm.mcpelauncher/data/mcpelauncher'', ''versions/versions.ini''])))"
    by blast
  show ?thesis using a b c d e by (simp only: p simp_thms)
qed

lemma split_two_versions_text:
  "split_chr newline two_versions_text =
     [''[x]'', ''versionCode=1'', ''versionName=x'',
      ''[y]'', ''versionCode=2'', ''versionName=y'', '''']"
  by (simp add: two_versions_text_def newline_def)

lemma parseIni_two_versions_text:
  "parseIni two_versions_text =
     \<lparr>global = [(''0'', None), (''1'', None), (''2'', None), (''3'', None),
                (''4'', None), (''5'', None), (''6'', None)],
      sections = []\<rparr>"
  by (simp add: parseIni_index_keys split_two_versions_text array_keys_7)

lemma parsedVersions_parseIni: "parsedVersions h (parseIni data) = []"
  by (simp add: parsedVersions_def sectionRecords_parseIni)

text \<open>
  A consequence of the loop of \<open>parseIni\<close>: the selector never returns a path. Either
  the file cannot be read, or the document read from it has no section and hence no
  valid version.
\<close>

lemma getAssetsLocation_mcpelauncher_fails:
  "isl (snd (getAssetsLocation_mcpelauncher h root))"
proof (cases "readFile h (path_join h [root, ''versions/versions.ini''])")
  case (Inl e)
  then show ?thesis
    by (simp add: getAssetsLocation_mcpelauncher_def readIni_def Let_def)
next
  case (Inr data)
  then show ?thesis
    by (simp add: getAssetsLocation_mcpelauncher_def readIni_def Let_def selectAssets_def
        parsedVersions_parseIni findMaxVersion_def)
qed

lemma one_launcher_file:
  "path_join linux_one_launcher [''/home/u/.local/share/mcpelauncher'', ''versions/versions.ini'']
     = ''/home/u/.local/share/mcpelauncher/versions/versions.ini''"
  "readFile linux_one_launcher ''/home/u/.local/share/mcpelauncher/versions/versions.ini''
     = Inr two_versions_text"
  by (simp_all add: linux_one_launcher_def linux_host_def file_table_def)

text \<open>
  C3. The claim: for a launcher root whose \<open>versions.ini\<close> yields at least one record
  with a numeric \<open>versionCode\<close> and a non-empty \<open>versionName\<close>, the selector returns
  \<open><root>/versions/<name>/assets\<close> for the record with the greatest code. What the
  selector does for a root whose \<open>versions.ini\<close> holds the two versions
  \<open>versionCode=1, versionName=x\<close> and \<open>versionCode=2, versionName=y\<close>: the file is read,
  the document parsed from it has no section (the loop of \<open>parseIni\<close> runs over the line
  indices, see C1), and the selector fails with the error for a file without a valid
  version, where the claim has \<open><root>/versions/y/assets\<close>.
\<close>

theorem selector_fails_on_valid_versions:
  "readFile linux_one_launcher ''/home/u/.local/share/mcpelauncher/versions/versions.ini''
     = Inr two_versions_text
   \<and> parseIni two_versions_text =
       \<lparr>global = [(''0'', None), (''1'', None), (''2'', None), (''3'', None),
                  (''4'', None), (''5'', None), (''6'', None)],
        sections = []\<rparr>
   \<and> getAssetsLocation_mcpelauncher linux_one_launcher ''/home/u/.local/share/mcpelauncher'' =
       ([ReadFile ''/home/u/.local/share/mcpelauncher/versions/versions.ini''],
        Inl (new_Error (no_valid_version_message
               ''/home/u/.local/share/mcpelauncher/versions/versions.ini'')))"
proof -
  have "getAssetsLocation_mcpelauncher linux_one_launcher ''/home/u/.local/share/mcpelauncher'' =
       ([ReadFile ''/home/u/.local/share/mcpelauncher/versions/versions.ini''],
        Inl (new_Error (no_valid_version_message
               ''/home/u/.local/share/mcpelauncher/versions/versions.ini'')))"
    by (simp add: getAssetsLocation_mcpelauncher_def readIni_def Let_def one_launcher_file
        selectAssets_def parsedVersions_parseIni findMaxVersion_def)
  with one_launcher_file(2) parseIni_two_versions_text show ?thesis by (intro conjI)
qed

section \<open>The existence filter\<close>

lemma checkExists_result:
  "snd (checkExists h paths) =
     (if filter (existsSync h) paths = [] then Inl NoCandidatesSurvived
      else Inr (filter (existsSync h) paths))"
  by (simp add: checkExists_def Let_def)

lemma checkExists_not_empty: "snd (checkExists h paths) \<noteq> Inr []"
  by (simp add: checkExists_result)

lemma checkExists_none_exists:
  "\<forall>p\<in>set paths. \<not> existsSync h p \<Longrightarrow> snd (checkExists h paths) = Inl NoCandidatesSurvived"
  by (simp add: checkExists_result filter_empty_conv)

lemma bind_checkExists_not_empty: "snd (io_bind m (checkExists h)) \<noteq> Inr []"
  by (cases "snd m") (simp_all add: io_bind_def checkExists_not_empty)

lemma bind_checkExists_none_exists:
  "snd m = Inr cs \<Longrightarrow> \<forall>p\<in>set cs. \<not> existsSync h p \<Longrightarrow>
   snd (io_bind m (checkExists h)) = Inl NoCandidatesSurvived"
  by (simp add: io_bind_def checkExists_none_exists)

lemma bind_checkExists_failed:
  "snd m = Inl e \<Longrightarrow> snd (io_bind m (checkExists h)) = Inl e"
  by (simp add: io_bind_def)

lemma getDataLocations_not_empty: "snd (getDataLocations h) \<noteq> Inr []"
  by (simp add: getDataLocations_def checkExists_not_empty bind_checkExists_not_empty
      io_pure_def)

lemma getAssetsLocations_not_empty: "snd (getAssetsLocations h) \<noteq> Inr []"
  by (simp add: getAssetsLocations_def bind_checkExists_not_empty io_pure_def)

text \<open>
  C2. Whatever the platform and the file system, neither resolver returns the empty
  list: it returns a non-empty list or it fails. And when none of the candidates exists
  the failure is the one of \<open>checkExists\<close>: for \<open>checkExists\<close> itself on any list, for the
  data resolver on each of its four platforms, and for the asset resolver on each of
  its three platforms once its platform function has produced its candidates.
\<close>

theorem resolvers_never_return_empty:
  "snd (getDataLocations h) \<noteq> Inr [] \<and> snd (getAssetsLocations h) \<noteq> Inr []
   \<and> ((\<forall>p\<in>set paths. \<not> existsSync h p) \<longrightarrow>
        snd (checkExists h paths) = Inl NoCandidatesSurvived)
   \<and> (platform h = ''win32'' \<and> getDataLocations_Windows h = Inr cs
        \<and> (\<forall>p\<in>set cs. \<not> existsSync h p) \<longrightarrow>
        snd (getDataLocations h) = Inl NoCandidatesSurvived)
   \<and> (platform h = ''darwin'' \<and> (\<forall>p\<in>set (getDataLocations_MacOS h). \<not> existsSync h p) \<longrightarrow>
        snd (getDataLocations h) = Inl NoCandidatesSurvived)
   \<and> (platform h = ''linux'' \<and> (\<forall>p\<in>set (getDataLocations_Linux h). \<not> existsSync h p) \<longrightarrow>
        snd (getDataLocations h) = Inl NoCandidatesSurvived)
   \<and> (platform h = ''android'' \<and> (\<forall>p\<in>set getDataLocations_Android. \<not> existsSync h p) \<longrightarrow>
        snd (getDataLocations h) = Inl NoCandidatesSurvived)
   \<and> (platform h = ''win32'' \<and> snd (getAssetsLocations_Windows h) = Inr cs
        \<and> (\<forall>p\<in>set cs. \<not> existsSync h p) \<longrightarrow>
        snd (getAssetsLocations h) = Inl NoCandidatesSurvived)
   \<and> (platform h = ''darwin'' \<and> snd (getAssetsLocations_MacOS h) = Inr cs
        \<and> (\<forall>p\<in>set cs. \<not> existsSync h p) \<longrightarrow>
        snd (getAssetsLocations h) = Inl NoCandidatesSurvived)
   \<and> (platform h = ''linux'' \<and> snd (getAssetsLocations_Linux h) = Inr cs
        \<and> (\<forall>p\<in>set cs. \<not> existsSync h p) \<longrightarrow>
        snd (getAssetsLocations h) = Inl NoCandidatesSurvived)
   \<and> not_installed_message =
        ''Could not determine the location of Bedrock's data files. The game is not installed or is installed in an unsupported location.''"
proof -
  have w: "platform h = ''win32'' \<and> getDataLocations_Windows h = Inr cs
        \<and> (\<forall>p\<in>set cs. \<not> existsSync h p) \<longrightarrow>
        snd (getDataLocations h) = Inl NoCandidatesSurvived"
    by (simp add: getDataLocations_def io_pure_def io_bind_def checkExists_none_exists)
  have d: "platform h = ''darwin'' \<and> (\<forall>p\<in>set (getDataLocations_MacOS h). \<not> existsSync h p) \<longrightarrow>
        snd (getDataLocations h) = Inl NoCandidatesSurvived"
    by (simp add: getDataLocations_def checkExists_none_exists)
  have l: "platform h = ''linux'' \<and> (\<forall>p\<in>set (getDataLocations_Linux h). \<not> existsSync h p) \<longrightarrow>
        snd (getDataLocations h) = Inl NoCandidatesSurvived"
    by (simp add: getDataLocations_def checkExists_none_exists)
  have a: "platform h = ''android'' \<and> (\<forall>p\<in>set getDataLocations_Android. \<not> existsSync h p) \<longrightarrow>
        snd (getDataLocations h) = Inl NoCandidatesSurvived"
    by (simp add: getDataLocations_def checkExists_none_exists)
  have aw: "platform h = ''win32'' \<and> snd (getAssetsLocations_Windows h) = Inr cs
        \<and> (\<forall>p\<in>set cs. \<not> existsSync h p) \<longrightarrow>
        snd (getAssetsLocations h) = Inl NoCandidatesSurvived"
    by (simp add: getAssetsLocations_def bind_checkExists_none_exists)
  have ad: "platform h = ''darwin'' \<and> snd (getAssetsLocations_MacOS h) = Inr cs
        \<and> (\<forall>p\<in>set cs. \<not> existsSync h p) \<longrightarrow>
        snd (getAssetsLocations h) = Inl NoCandidatesSurvived"
    by (simp add: getAssetsLocations_def bind_checkExists_none_exists)
  have al: "platform h = ''linux'' \<and> snd (getAssetsLocations_Linux h) = Inr cs
        \<and> (\<forall>p\<in>set cs. \<not> existsSync h p) \<longrightarrow>
        snd (getAssetsLocations h) = Inl NoCandidatesSurvived"
    by (simp add: getAssetsLocations_def bind_checkExists_none_exists)
  have c: "(\<forall>p\<in>set paths. \<not> existsSync h p) \<longrightarrow>
        snd (checkExists h paths) = Inl NoCandidatesSurvived"
    by (simp add: checkExists_none_exists)
  have m: "not_installed_message =
        ''Could not determine the location of Bedrock's data files. The game is not installed or is installed in an unsupported location.''"
    by (simp only: not_installed_message_def)
  from getDataLocations_not_empty [of h] getAssetsLocations_not_empty [of h] c w d l a aw ad al m
  show ?thesis by (intro conjI)
qed


lemma nothing_exists:
  "existsSync linux_host p = False" "existsSync mac_host p = False"
  "existsSync android_host p = False" "existsSync windows_host p = False"
  by (simp_all add: linux_host_def mac_host_def android_host_def windows_host_def
      exists_only_def)

lemma sample_platforms:
  "platform linux_host = ''linux''" "platform mac_host = ''darwin''"
  "platform android_host = ''android''" "platform windows_host = ''win32''"
  by (simp_all add: linux_host_def mac_host_def android_host_def windows_host_def)

lemma no_root_no_assets:
  "\<forall>p. \<not> existsSync h p \<Longrightarrow> snd (mcpelauncherAssets h roots) = Inr []"
  by (simp add: mcpelauncherAssets_def Let_def)

theorem resolvers_never_return_empty_witness:
  "snd (getDataLocations linux_host) = Inl NoCandidatesSurvived
   \<and> snd (getAssetsLocations linux_host) = Inl NoCandidatesSurvived
   \<and> snd (getDataLocations mac_host) = Inl NoCandidatesSurvived
   \<and> snd (getAssetsLocations mac_host) = Inl NoCandidatesSurvived
   \<and> snd (getDataLocations android_host) = Inl NoCandidatesSurvived
   \<and> snd (getDataLocations windows_host) = Inl NoCandidatesSurvived
   \<and> snd (getAssetsLocations windows_host) = Inl NoCandidatesSurvived
   \<and> snd (checkExists linux_host [''/sdcard/games/com.mojang'']) = Inl NoCandidatesSurvived"
proof -
  have lr: "snd (getAssetsLocations_Linux linux_host) = Inr []"
    by (simp add: getAssetsLocations_Linux_def no_root_no_assets nothing_exists)
  have mr: "snd (getAssetsLocations_MacOS mac_host) = Inr []"
    by (simp add: getAssetsLocations_MacOS_def no_root_no_assets nothing_exists)
  have wd: "getDataLocations_Windows windows_host =
      Inr [path_join windows_host [''C:/Users/u/AppData/Local'',
              ''Packages/Microsoft.MinecraftUWP_8wekyb3d8bbwe/LocalState/games/com.mojang'']]"
    by (simp add: getDataLocations_Windows_def windows_host_def linux_host_def)
  have wa: "snd (getAssetsLocations_Windows windows_host) =
      Inr [path_join windows_host [''C:/Program Files/WindowsApps/Microsoft.MinecraftUWP'', ''data'']]"
    by (simp add: getAssetsLocations_Windows_def GetAppxPackage_def windows_host_def
        linux_host_def always_def Let_def)
  note l = resolvers_never_return_empty [of linux_host "[''/sdcard/games/com.mojang'']" "[]"]
  note m = resolvers_never_return_empty [of mac_host "[]" "[]"]
  note a = resolvers_never_return_empty [of android_host "[]" "[]"]
  note w1 = resolvers_never_return_empty [of windows_host "[]"
      "[path_join windows_host [''C:/Users/u/AppData/Local'',
              ''Packages/Microsoft.MinecraftUWP_8wekyb3d8bbwe/LocalState/games/com.mojang'']]"]
  note w2 = resolvers_never_return_empty [of windows_host "[]"
      "[path_join windows_host [''C:/Program Files/WindowsApps/Microsoft.MinecraftUWP'', ''data'']]"]
  have 1: "snd (getDataLocations linux_host) = Inl NoCandidatesSurvived"
    using l by (simp add: nothing_exists sample_platforms)
  have 2: "snd (getAssetsLocations linux_host) = Inl NoCandidatesSurvived"
    using l lr by (simp add: nothing_exists sample_platforms)
  have 3: "snd (getDataLocations mac_host) = Inl NoCandidatesSurvived"
    using m by (simp add: nothing_exists sample_platforms)
  have 4: "snd (getAssetsLocations mac_host) = Inl NoCandidatesSurvived"
    using m mr by (simp add: nothing_exists sample_platforms)
  have 5: "snd (getDataLocations android_host) = Inl NoCandidatesSurvived"
    using a by (simp add: nothing_exists sample_platforms)
  have 6: "snd (getDataLocations windows_host) = Inl NoCandidatesSurvived"
    using w1 wd by (simp add: nothing_exists sample_platforms)
  have 7: "snd (getAssetsLocations windows_host) = Inl NoCandidatesSurvived"
    using w2 wa by (simp add: nothing_exists sample_platforms)
  have 8: "snd (checkExists linux_host [''/sdcard/games/com.mojang'']) = Inl NoCandidatesSurvived"
    using l by (simp add: nothing_exists)
  from 1 2 3 4 5 6 7 8 show ?thesis by (intro conjI)
qed

section \<open>Launcher roots: all or nothing\<close>


lemma promise_all_in_order:
  "\<forall>x\<in>set xs. g x = Inr (f x) \<Longrightarrow> promise_all (map g xs) = Inr (map f xs)"
  by (induction xs) simp_all









section \<open>Platform dispatch\<close>

text \<open>
  C6. For a platform identifier that is none of \<open>win32\<close>, \<open>darwin\<close>, \<open>linux\<close>,
  \<open>android\<close>, the data resolver fails without a single access to the outside world, and
  so does the asset resolver for an identifier that is none of \<open>win32\<close>, \<open>darwin\<close>,
  \<open>linux\<close>; the message of the error contains the identifier and lists the platforms
  the resolver supports.
\<close>

theorem unsupported_platform_fails_immediately:
  "(platform h \<notin> {''win32'', ''darwin'', ''linux'', ''android''} \<longrightarrow>
      getDataLocations h = ([], Inl (new_Error (data_unsupported_message (platform h)))))
   \<and> (platform h \<notin> {''win32'', ''darwin'', ''linux''} \<longrightarrow>
      getAssetsLocations h = ([], Inl (new_Error (assets_unsupported_message (platform h)))))
   \<and> data_unsupported_message (platform h) =
       ''Could not determine the location of Bedrock's data files. The current platform ('' @ platform h @ '') is not supported. Supported platforms: win32 (Windows), darwin (MacOS), linux, android''
   \<and> assets_unsupported_message (platform h) =
       ''Could not determine the location of Bedrock's asset files. The current platform ('' @ platform h @ '') is not supported. Supported platforms: win32 (Windows), darwin (MacOS), linux''"
proof -
  have d: "platform h \<notin> {''win32'', ''darwin'', ''linux'', ''android''} \<longrightarrow>
      getDataLocations h = ([], Inl (new_Error (data_unsupported_message (platform h))))"
    by (simp add: getDataLocations_def io_pure_def)
  have a: "platform h \<notin> {''win32'', ''darwin'', ''linux''} \<longrightarrow>
      getAssetsLocations h = ([], Inl (new_Error (assets_unsupported_message (platform h))))"
    by (simp add: getAssetsLocations_def io_pure_def)
  have dm: "data_unsupported_message (platform h) =
       ''Could not determine the location of Bedrock's data files. The current platform ('' @ platform h @ '') is not supported. Supported platforms: win32 (Windows), darwin (MacOS), linux, android''"
    by (simp only: data_unsupported_message_def)
  have am: "assets_unsupported_message (platform h) =
       ''Could not determine the location of Bedrock's asset files. The current platform ('' @ platform h @ '') is not supported. Supported platforms: win32 (Windows), darwin (MacOS), linux''"
    by (simp only: assets_unsupported_message_def)
  from d a dm am show ?thesis by (intro conjI)
qed

lemma freebsd_platform: "platform freebsd_host = ''freebsd''"
  by (simp add: freebsd_host_def linux_host_def)

theorem unsupported_platform_fails_immediately_witness:
  "platform freebsd_host \<notin> {''win32'', ''darwin'', ''linux'', ''android''}
   \<and> getDataLocations freebsd_host =
       ([], Inl (new_Error (data_unsupported_message ''freebsd'')))
   \<and> getAssetsLocations freebsd_host =
       ([], Inl (new_Error (assets_unsupported_message ''freebsd'')))"
proof -
  have n: "platform freebsd_host \<notin> {''win32'', ''darwin'', ''linux'', ''android''}"
    and n': "platform freebsd_host \<notin> {''win32'', ''darwin'', ''linux''}"
    by (simp_all add: freebsd_platform)
  from unsupported_platform_fails_immediately [of freebsd_host] n n'
  have "getDataLocations freebsd_host =
       ([], Inl (new_Error (data_unsupported_message (platform freebsd_host))))"
    and "getAssetsLocations freebsd_host =
       ([], Inl (new_Error (assets_unsupported_message (platform freebsd_host))))"
    by blast+
  with n show ?thesis by (simp only: freebsd_platform simp_thms)
qed

text \<open>
  C10. On \<open>android\<close> the data resolver is supported: it filters the two fixed absolute
  candidates. The asset resolver fails on \<open>android\<close> at once with the unsupported
  platform error, whose list of supported platforms has no \<open>android\<close>.
\<close>

theorem android_has_data_but_no_assets:
  "platform h = ''android'' \<longrightarrow>
     getDataLocations h =
       checkExists h [''/data/data/com.mojang.minecraftpe/games/com.mojang'',
                      ''/sdcard/games/com.mojang'']
     \<and> getAssetsLocations h = ([], Inl (new_Error (assets_unsupported_message ''android'')))
     \<and> assets_unsupported_message ''android'' =
         ''Could not determine the location of Bedrock's asset files. The current platform (android) is not supported. Supported platforms: win32 (Windows), darwin (MacOS), linux''"
proof
  assume p: "platform h = ''android''"
  have d: "getDataLocations h =
       checkExists h [''/data/data/com.mojang.minecraftpe/games/com.mojang'',
                      ''/sdcard/games/com.mojang'']"
    by (simp add: getDataLocations_def p getDataLocations_Android_def)
  have a: "getAssetsLocations h = ([], Inl (new_Error (assets_unsupported_message ''android'')))"
    by (simp add: getAssetsLocations_def p io_pure_def)
  have m: "assets_unsupported_message ''android'' =
         ''Could not determine the location of Bedrock's asset files. The current platform (android) is not supported. Supported platforms: win32 (Windows), darwin (MacOS), linux''"
    by (simp add: assets_unsupported_message_def)
  from d a m show "getDataLocations h =
       checkExists h [''/data/data/com.mojang.minecraftpe/games/com.mojang'',
                      ''/sdcard/games/com.mojang'']
     \<and> getAssetsLocations h = ([], Inl (new_Error (assets_unsupported_message ''android'')))
     \<and> assets_unsupported_message ''android'' =
         ''Could not determine the location of Bedrock's asset files. The current platform (android) is not supported. Supported platforms: win32 (Windows), darwin (MacOS), linux''"
    by (intro conjI)
qed

theorem android_has_data_but_no_assets_witness:
  "platform android_sdcard = ''android''
   \<and> getDataLocations android_sdcard =
       ([ExistsSync ''/data/data/com.mojang.minecraftpe/games/com.mojang'',
         ExistsSync ''/sdcard/games/com.mojang''],
        Inr [''/sdcard/games/com.mojang''])
   \<and> getAssetsLocations android_sdcard =
       ([], Inl (new_Error (assets_unsupported_message ''android'')))"
proof -
  have p: "platform android_sdcard = ''android''"
    by (simp add: android_sdcard_def android_host_def linux_host_def)
  have c: "checkExists android_sdcard [''/data/data/com.mojang.minecraftpe/games/com.mojang'',
                      ''/sdcard/games/com.mojang''] =
       ([ExistsSync ''/data/data/com.mojang.minecraftpe/games/com.mojang'',
         ExistsSync ''/sdcard/games/com.mojang''],
        Inr [''/sdcard/games/com.mojang''])"
    by (simp add: checkExists_def android_sdcard_def android_host_def linux_host_def
        exists_only_def Let_def)
  from android_has_data_but_no_assets [of android_sdcard] p c show ?thesis by simp
qed

section \<open>The environment variable of the Windows data resolver\<close>

text \<open>
  C8, as amended. On \<open>win32\<close> the data resolver fails with the missing variable error,
  without any access to the file system, when \<open>LOCALAPPDATA\<close> is absent or empty; when
  it is present and not empty, the single candidate handed to the existence filter is
  its value joined with the fixed package path.
\<close>

theorem windows_data_needs_nonempty_variable:
  "platform h = ''win32'' \<longrightarrow>
     (LOCALAPPDATA h = None \<or> LOCALAPPDATA h = Some [] \<longrightarrow>
        getDataLocations h = ([], Inl (new_Error env_missing_message)))
     \<and> (\<forall>v. LOCALAPPDATA h = Some v \<and> v \<noteq> [] \<longrightarrow>
          getDataLocations_Windows h =
            Inr [path_join h [v, ''Packages/Microsoft.MinecraftUWP_8wekyb3d8bbwe/LocalState/games/com.mojang'']]
          \<and> getDataLocations h =
            checkExists h [path_join h [v, ''Packages/Microsoft.MinecraftUWP_8wekyb3d8bbwe/LocalState/games/com.mojang'']])
     \<and> env_missing_message =
         ''Could not determine the location of Bedrock's data files. The LOCALAPPDATA environment variable is missing.''"
proof
  assume p: "platform h = ''win32''"
  have a: "LOCALAPPDATA h = None \<or> LOCALAPPDATA h = Some [] \<longrightarrow>
        getDataLocations h = ([], Inl (new_Error env_missing_message))"
    by (auto simp add: getDataLocations_def p getDataLocations_Windows_def io_pure_def io_bind_def)
  have b: "\<forall>v. LOCALAPPDATA h = Some v \<and> v \<noteq> [] \<longrightarrow>
          getDataLocations_Windows h =
            Inr [path_join h [v, ''Packages/Microsoft.MinecraftUWP_8wekyb3d8bbwe/LocalState/games/com.mojang'']]
          \<and> getDataLocations h =
            checkExists h [path_join h [v, ''Packages/Microsoft.MinecraftUWP_8wekyb3d8bbwe/LocalState/games/com.mojang'']]"
    by (simp add: getDataLocations_def p getDataLocations_Windows_def io_pure_def io_bind_def)
  have m: "env_missing_message =
         ''Could not determine the location of Bedrock's data files. The LOCALAPPDATA environment variable is missing.''"
    by (simp only: env_missing_message_def)
  from a b m show "(LOCALAPPDATA h = None \<or> LOCALAPPDATA h = Some [] \<longrightarrow>
        getDataLocations h = ([], Inl (new_Error env_missing_message)))
     \<and> (\<forall>v. LOCALAPPDATA h = Some v \<and> v \<noteq> [] \<longrightarrow>
          getDataLocations_Windows h =
            Inr [path_join h [v, ''Packages/Microsoft.MinecraftUWP_8wekyb3d8bbwe/LocalState/games/com.mojang'']]
          \<and> getDataLocations h =
            checkExists h [path_join h [v, ''Packages/Microsoft.MinecraftUWP_8wekyb3d8bbwe/LocalState/games/com.mojang'']])
     \<and> env_missing_message =
         ''Could not determine the location of Bedrock's data files. The LOCALAPPDATA environment variable is missing.''"
    by (intro conjI)
qed

lemma windows_samples:
  "platform windows_host = ''win32''" "platform windows_no_env = ''win32''"
  "platform windows_empty_env = ''win32''"
  "LOCALAPPDATA windows_host = Some ''C:/Users/u/AppData/Local''"
  "LOCALAPPDATA windows_no_env = None" "LOCALAPPDATA windows_empty_env = Some []"
  "path_join windows_host = join_slash" "path_join windows_empty_env = join_slash"
  by (simp_all add: windows_host_def windows_no_env_def windows_empty_env_def linux_host_def)

theorem windows_data_needs_nonempty_variable_witness:
  "platform windows_no_env = ''win32'' \<and> LOCALAPPDATA windows_no_env = None
   \<and> getDataLocations windows_no_env = ([], Inl (new_Error env_missing_message))
   \<and> platform windows_host = ''win32''
   \<and> LOCALAPPDATA windows_host = Some ''C:/Users/u/AppData/Local''
   \<and> getDataLocations_Windows windows_host =
       Inr [''C:/Users/u/AppData/Local/Packages/Microsoft.MinecraftUWP_8wekyb3d8bbwe/LocalState/games/com.mojang'']
   \<and> getDataLocations windows_host =
       checkExists windows_host
         [''C:/Users/u/AppData/Local/Packages/Microsoft.MinecraftUWP_8wekyb3d8bbwe/LocalState/games/com.mojang'']"
proof -
  from windows_data_needs_nonempty_variable [of windows_no_env]
  have 1: "getDataLocations windows_no_env = ([], Inl (new_Error env_missing_message))"
    by (simp add: windows_samples)
  have ne: "''C:/Users/u/AppData/Local'' \<noteq> []" by simp
  from windows_data_needs_nonempty_variable [of windows_host] ne
  have 2: "getDataLocations_Windows windows_host =
       Inr [path_join windows_host [''C:/Users/u/AppData/Local'', ''Packages/Microsoft.MinecraftUWP_8wekyb3d8bbwe/LocalState/games/com.mojang'']]
     \<and> getDataLocations windows_host =
       checkExists windows_host
         [path_join windows_host [''C:/Users/u/AppData/Local'', ''Packages/Microsoft.MinecraftUWP_8wekyb3d8bbwe/LocalState/games/com.mojang'']]"
    by (simp add: windows_samples(1,4))
  have j: "path_join windows_host [''C:/Users/u/AppData/Local'', ''Packages/Microsoft.MinecraftUWP_8wekyb3d8bbwe/LocalState/games/com.mojang'']
      = ''C:/Users/u/AppData/Local/Packages/Microsoft.MinecraftUWP_8wekyb3d8bbwe/LocalState/games/com.mojang''"
    by (simp add: windows_samples)
  from 1 2 show ?thesis unfolding j by (simp add: windows_samples)
qed

text \<open>
  C8, as stated, fails when the variable is present and empty: the candidate would be the
  empty value joined with the package path, but the resolver fails with the error for a
  missing variable.
\<close>

theorem present_but_empty_counterexample:
  "platform windows_empty_env = ''win32'' \<and> LOCALAPPDATA windows_empty_env = Some []
   \<and> getDataLocations_Windows windows_empty_env \<noteq>
       Inr [path_join windows_empty_env
              [[], ''Packages/Microsoft.MinecraftUWP_8wekyb3d8bbwe/LocalState/games/com.mojang'']]
   \<and> getDataLocations windows_empty_env = ([], Inl (new_Error env_missing_message))"
  by (simp add: windows_samples getDataLocations_def getDataLocations_Windows_def
      io_pure_def io_bind_def)

section \<open>The package query and the Windows asset resolver\<close>

lemma GetAppxPackage_result:
  "snd (GetAppxPackage h name) =
     (case exec_error (powershell h name) of
        Some error \<Rightarrow> Inl error
      | None \<Rightarrow>
          if stderr (powershell h name) \<noteq> [] then Inl (new_Error (stderr (powershell h name)))
          else JSON_parse h (stdout (powershell h name)))"
  by (simp add: GetAppxPackage_def Let_def split: option.splits sum.splits)

lemma getAssetsLocations_Windows_wraps:
  "snd (GetAppxPackage h ''Microsoft.MinecraftUWP'') = Inl e \<Longrightarrow>
   snd (getAssetsLocations_Windows h) = Inl (new_Error (package_error_message (message e)))"
  by (simp add: getAssetsLocations_Windows_def Let_def)

lemma getAssetsLocations_Windows_candidate:
  "snd (GetAppxPackage h ''Microsoft.MinecraftUWP'') = Inr (JObject properties) \<Longrightarrow>
   map_of properties ''InstallLocation'' = Some (JString location) \<Longrightarrow>
   snd (getAssetsLocations_Windows h) = Inr [path_join h [location, ''data'']]"
  by (simp add: getAssetsLocations_Windows_def Let_def)

lemma getAssetsLocations_Windows_null:
  "snd (GetAppxPackage h ''Microsoft.MinecraftUWP'') = Inr JNull \<Longrightarrow>
   snd (getAssetsLocations_Windows h) = Inl (TypeError h (PropertyOfNull ''InstallLocation''))"
  by (simp add: getAssetsLocations_Windows_def Let_def)

lemma getAssetsLocations_Windows_array:
  "snd (GetAppxPackage h ''Microsoft.MinecraftUWP'') = Inr (JArray items) \<Longrightarrow>
   snd (getAssetsLocations_Windows h) = Inl (TypeError h (InvalidPathArgument None))"
  by (simp add: getAssetsLocations_Windows_def Let_def)

lemma getAssetsLocations_win32:
  "platform h = ''win32'' \<Longrightarrow> snd (getAssetsLocations_Windows h) = Inl e \<Longrightarrow>
   snd (getAssetsLocations h) = Inl e"
  by (simp add: getAssetsLocations_def io_bind_def)

text \<open>
  C9, as amended. The package query fails with the error of the process when there is
  one (a timeout is one), else with an error made of the diagnostic output when there
  is some, else with the error of \<open>JSON.parse\<close> when the output is not JSON; otherwise
  it succeeds with the value the output denotes, whatever its shape. When the query
  fails, the Windows asset resolution fails with a new error whose message is a fixed
  prefix followed by the message of the failure, unchanged. When the query succeeds
  with an object whose \<open>InstallLocation\<close> is a string, the single candidate is that
  string joined with \<open>data\<close>.
\<close>

theorem package_query_failure_is_wrapped:
  "(snd (GetAppxPackage h ''Microsoft.MinecraftUWP'') = Inl e \<longrightarrow>
      snd (getAssetsLocations_Windows h) = Inl (new_Error (package_error_message (message e)))
      \<and> (platform h = ''win32'' \<longrightarrow>
           snd (getAssetsLocations h) = Inl (new_Error (package_error_message (message e)))))
   \<and> (exec_error (powershell h name) = Some e \<longrightarrow> snd (GetAppxPackage h name) = Inl e)
   \<and> (exec_error (powershell h name) = None \<and> stderr (powershell h name) \<noteq> [] \<longrightarrow>
        snd (GetAppxPackage h name) = Inl (new_Error (stderr (powershell h name))))
   \<and> (exec_error (powershell h name) = None \<and> stderr (powershell h name) = []
        \<and> JSON_parse h (stdout (powershell h name)) = Inl e \<longrightarrow>
        snd (GetAppxPackage h name) = Inl e)
   \<and> (exec_error (powershell h name) = None \<and> stderr (powershell h name) = []
        \<and> JSON_parse h (stdout (powershell h name)) = Inr packageData \<longrightarrow>
        snd (GetAppxPackage h name) = Inr packageData)
   \<and> (snd (GetAppxPackage h ''Microsoft.MinecraftUWP'') = Inr (JObject properties)
        \<and> map_of properties ''InstallLocation'' = Some (JString location) \<longrightarrow>
        snd (getAssetsLocations_Windows h) = Inr [path_join h [location, ''data'']])
   \<and> message (new_Error (package_error_message (message e))) =
        ''Could not determine the location of Bedrock's asset files. The package details command returned the following error:'' @ [newline] @ message e"
proof -
  have w: "snd (GetAppxPackage h ''Microsoft.MinecraftUWP'') = Inl e \<longrightarrow>
      snd (getAssetsLocations_Windows h) = Inl (new_Error (package_error_message (message e)))
      \<and> (platform h = ''win32'' \<longrightarrow>
           snd (getAssetsLocations h) = Inl (new_Error (package_error_message (message e))))"
    by (simp add: getAssetsLocations_Windows_wraps getAssetsLocations_win32)
  have 1: "exec_error (powershell h name) = Some e \<longrightarrow> snd (GetAppxPackage h name) = Inl e"
    by (simp add: GetAppxPackage_result)
  have 2: "exec_error (powershell h name) = None \<and> stderr (powershell h name) \<noteq> [] \<longrightarrow>
        snd (GetAppxPackage h name) = Inl (new_Error (stderr (powershell h name)))"
    by (simp add: GetAppxPackage_result)
  have 3: "exec_error (powershell h name) = None \<and> stderr (powershell h name) = []
        \<and> JSON_parse h (stdout (powershell h name)) = Inl e \<longrightarrow>
        snd (GetAppxPackage h name) = Inl e"
    by (simp add: GetAppxPackage_result)
  have 4: "exec_error (powershell h name) = None \<and> stderr (powershell h name) = []
        \<and> JSON_parse h (stdout (powershell h name)) = Inr packageData \<longrightarrow>
        snd (GetAppxPackage h name) = Inr packageData"
    by (simp add: GetAppxPackage_result)
  have 5: "snd (GetAppxPackage h ''Microsoft.MinecraftUWP'') = Inr (JObject properties)
        \<and> map_of properties ''InstallLocation'' = Some (JString location) \<longrightarrow>
        snd (getAssetsLocations_Windows h) = Inr [path_join h [location, ''data'']]"
    by (simp add: getAssetsLocations_Windows_candidate)
  have 6: "message (new_Error (package_error_message (message e))) =
        ''Could not determine the location of Bedrock's asset files. The package details command returned the following error:'' @ [newline] @ message e"
    by (simp add: new_Error_def package_error_message_def)
  from w 1 2 3 4 5 6 show ?thesis by (intro conjI)
qed

lemma package_query_samples:
  "platform windows_timeout = ''win32''" "platform windows_stderr = ''win32''"
  "platform windows_bad_json = ''win32''" "platform windows_host = ''win32''"
  "powershell windows_timeout n = timed_out"
  "powershell windows_stderr n = \<lparr>exec_error = None, stdout = [], stderr = ''Access is denied.''\<rparr>"
  "powershell windows_bad_json n = \<lparr>exec_error = None, stdout = ''<html>'', stderr = []\<rparr>"
  "powershell windows_host n = \<lparr>exec_error = None, stdout = ''{...}'', stderr = []\<rparr>"
  "JSON_parse windows_bad_json s = Inl (new_Error ''Unexpected token < in JSON at position 0'')"
  "JSON_parse windows_host s =
     Inr (JObject [(''Name'', JString ''Microsoft.MinecraftUWP''),
                   (''InstallLocation'',
                    JString ''C:/Program Files/WindowsApps/Microsoft.MinecraftUWP'')])"
  "path_join windows_host = join_slash"
  by (simp_all add: windows_timeout_def windows_stderr_def windows_bad_json_def
      windows_host_def linux_host_def always_def)

theorem package_query_failure_is_wrapped_witness:
  "snd (getAssetsLocations windows_timeout) =
     Inl (new_Error (package_error_message ''Command failed: powershell.exe''))
   \<and> snd (getAssetsLocations windows_stderr) =
     Inl (new_Error (package_error_message ''Access is denied.''))
   \<and> snd (getAssetsLocations windows_bad_json) =
     Inl (new_Error (package_error_message ''Unexpected token < in JSON at position 0''))
   \<and> snd (getAssetsLocations_Windows windows_host) =
     Inr [''C:/Program Files/WindowsApps/Microsoft.MinecraftUWP/data'']"
proof -
  let ?n = "''Microsoft.MinecraftUWP''"
  let ?e1 = "new_Error ''Command failed: powershell.exe''"
  let ?e2 = "new_Error ''Access is denied.''"
  let ?e3 = "new_Error ''Unexpected token < in JSON at position 0''"
  let ?props = "[(''Name'', JString ''Microsoft.MinecraftUWP''),
                 (''InstallLocation'',
                  JString ''C:/Program Files/WindowsApps/Microsoft.MinecraftUWP'')]"
  let ?loc = "''C:/Program Files/WindowsApps/Microsoft.MinecraftUWP''"
  note t1 = package_query_failure_is_wrapped
    [where h = windows_timeout and e = ?e1 and name = ?n]
  note t2 = package_query_failure_is_wrapped
    [where h = windows_stderr and e = ?e2 and name = ?n]
  note t3 = package_query_failure_is_wrapped
    [where h = windows_bad_json and e = ?e3 and name = ?n]
  note t4 = package_query_failure_is_wrapped
    [where h = windows_host and name = ?n and packageData = "JObject ?props"
       and properties = ?props and location = ?loc]
  have m: "message ?e1 = ''Command failed: powershell.exe''" "message ?e2 = ''Access is denied.''"
    "message ?e3 = ''Unexpected token < in JSON at position 0''"
    by (simp_all add: new_Error_def)
  have f1: "snd (GetAppxPackage windows_timeout ?n) = Inl ?e1"
    using t1 by (simp add: package_query_samples timed_out_def)
  have f2: "snd (GetAppxPackage windows_stderr ?n) = Inl ?e2"
    using t2 by (simp add: package_query_samples)
  have f3: "snd (GetAppxPackage windows_bad_json ?n) = Inl ?e3"
    using t3 by (simp add: package_query_samples)
  have f4: "snd (GetAppxPackage windows_host ?n) = Inr (JObject ?props)"
    using t4 by (simp add: package_query_samples)
  from t1 f1 have 1: "snd (getAssetsLocations windows_timeout) =
     Inl (new_Error (package_error_message (message ?e1)))"
    by (simp add: package_query_samples(1))
  from t2 f2 have 2: "snd (getAssetsLocations windows_stderr) =
     Inl (new_Error (package_error_message (message ?e2)))"
    by (simp add: package_query_samples(2))
  from t3 f3 have 3: "snd (getAssetsLocations windows_bad_json) =
     Inl (new_Error (package_error_message (message ?e3)))"
    by (simp add: package_query_samples(3))
  from t4 f4 have 4: "snd (getAssetsLocations_Windows windows_host) =
     Inr [path_join windows_host [?loc, ''data'']]"
    by simp
  from 1 2 3 4 show ?thesis by (simp add: m package_query_samples(11))
qed

lemma unchecked_samples:
  "platform windows_null_json = ''win32''" "platform windows_two_packages = ''win32''"
  "powershell windows_null_json n = \<lparr>exec_error = None, stdout = ''null'', stderr = []\<rparr>"
  "powershell windows_two_packages n =
     \<lparr>exec_error = None, stdout = ''[{...},{...}]'', stderr = []\<rparr>"
  "JSON_parse windows_null_json s = Inr JNull"
  "JSON_parse windows_two_packages s =
     Inr (JArray [JObject [(''InstallLocation'', JString ''C:/a'')],
                  JObject [(''InstallLocation'', JString ''C:/b'')]])"
  "TypeError_message windows_null_json = node_message"
  "TypeError_message windows_two_packages = node_message"
  by (simp_all add: windows_null_json_def windows_two_packages_def windows_host_def
      linux_host_def always_def)

text \<open>
  C9, as stated, fails when the output of the query is JSON of another shape. When it
  is \<open>null\<close>, or an array because two packages match, the query succeeds, no candidate is
  produced and the resolution fails with the type error of the runtime, thrown outside
  the \<open>try\<close>: it is not wrapped.
\<close>

theorem unchecked_package_counterexample:
  "snd (GetAppxPackage windows_null_json ''Microsoft.MinecraftUWP'') = Inr JNull
   \<and> snd (getAssetsLocations windows_null_json) =
       Inl (TypeError windows_null_json (PropertyOfNull ''InstallLocation''))
   \<and> err_name (TypeError windows_null_json (PropertyOfNull ''InstallLocation'')) = ''TypeError''
   \<and> message (TypeError windows_null_json (PropertyOfNull ''InstallLocation'')) =
       ''Cannot read properties of null (reading '' @ [CHR 0x27] @ ''InstallLocation'' @ [CHR 0x27] @ '')''
   \<and> snd (GetAppxPackage windows_two_packages ''Microsoft.MinecraftUWP'') =
       Inr (JArray [JObject [(''InstallLocation'', JString ''C:/a'')],
                    JObject [(''InstallLocation'', JString ''C:/b'')]])
   \<and> snd (getAssetsLocations windows_two_packages) =
       Inl (TypeError windows_two_packages (InvalidPathArgument None))
   \<and> err_name (TypeError windows_two_packages (InvalidPathArgument None)) = ''TypeError''
   \<and> err_code (TypeError windows_two_packages (InvalidPathArgument None)) =
       Some ''ERR_INVALID_ARG_TYPE''"
proof -
  have a: "snd (GetAppxPackage windows_null_json ''Microsoft.MinecraftUWP'') = Inr JNull"
    by (simp add: GetAppxPackage_result unchecked_samples)
  have b: "snd (GetAppxPackage windows_two_packages ''Microsoft.MinecraftUWP'') =
       Inr (JArray [JObject [(''InstallLocation'', JString ''C:/a'')],
                    JObject [(''InstallLocation'', JString ''C:/b'')]])"
    by (simp add: GetAppxPackage_result unchecked_samples)
  have 1: "snd (getAssetsLocations windows_null_json) =
       Inl (TypeError windows_null_json (PropertyOfNull ''InstallLocation''))"
    using a by (intro getAssetsLocations_win32 getAssetsLocations_Windows_null)
      (simp_all add: unchecked_samples)
  have 2: "snd (getAssetsLocations windows_two_packages) =
       Inl (TypeError windows_two_packages (InvalidPathArgument None))"
    using b by (intro getAssetsLocations_win32 getAssetsLocations_Windows_array)
      (simp_all add: unchecked_samples)
  have 3: "err_name (TypeError windows_null_json (PropertyOfNull ''InstallLocation'')) = ''TypeError''"
    "err_name (TypeError windows_two_packages (InvalidPathArgument None)) = ''TypeError''"
    "err_code (TypeError windows_two_packages (InvalidPathArgument None)) =
       Some ''ERR_INVALID_ARG_TYPE''"
    by (simp_all add: TypeError_def)
  have 4: "message (TypeError windows_null_json (PropertyOfNull ''InstallLocation'')) =
       ''Cannot read properties of null (reading '' @ [CHR 0x27] @ ''InstallLocation'' @ [CHR 0x27] @ '')''"
    by (simp add: TypeError_def unchecked_samples node_message_def)
  from a 1 3(1) 4 b 2 3(2) 3(3) show ?thesis by (intro conjI)
qed

end
